theory Spec2Isabelle
  imports Complex_Main
begin

section \<open>Values of the status document\<close>

text \<open>
  The status document handed to \<open>Vehicle.update_ccs2\<close> is a parsed JSON-like tree, and the
  attributes of a \<open>Vehicle\<close> hold whatever the pass copies out of it: Python does not enforce
  the annotations of the dataclass. Every attribute and every node of the document is therefore a
  \<open>pyval\<close>. A \<open>datetime.tzinfo\<close> is named by a string.
\<close>

datatype tzinfo = TZ string

datatype pyval =
    PNone
  | PBool bool
  | PInt int
  | PFloat real
  | PStr string
  | PList "pyval list"
  | PDict "(string \<times> pyval) list"
  | PDateTime int int int int int int tzinfo
  | PTz tzinfo
  | PObj string

text \<open>
  \<open>PDateTime year month day hour minute second tzinfo\<close> is a \<open>datetime.datetime\<close>;
  \<open>PObj\<close> is any other object, compared by identity (a member of the enumeration
  \<open>ENGINE_TYPES\<close>).
\<close>

datatype error = TypeError | ValueError | SubscriptError | HelperError string

text \<open>
  \<open>SubscriptError\<close> is what a failed subscript \<open>T[k]\<close> of one of the tables of
  \<open>const\<close> raises (\<open>KeyError\<close> for a dictionary, \<open>IndexError\<close> or \<open>TypeError\<close> for a
  list); \<open>HelperError\<close> is whatever a helper of \<open>utils\<close> raises.
\<close>

subsection \<open>Built-in operations of Python\<close>

fun truthy :: "pyval \<Rightarrow> bool" where
  "truthy PNone = False"
| "truthy (PBool b) = b"
| "truthy (PInt i) = (i \<noteq> 0)"
| "truthy (PFloat r) = (r \<noteq> 0)"
| "truthy (PStr s) = (s \<noteq> [])"
| "truthy (PList xs) = (xs \<noteq> [])"
| "truthy (PDict kvs) = (kvs \<noteq> [])"
| "truthy (PDateTime y mo d h mi s tz) = True"
| "truthy (PTz tz) = True"
| "truthy (PObj n) = True"

definition py_bool :: "pyval \<Rightarrow> pyval" where
  "py_bool v = PBool (truthy v)"

definition py_or :: "pyval \<Rightarrow> pyval \<Rightarrow> pyval" where
  "py_or a b = (if truthy a then a else b)"

definition py_not :: "pyval \<Rightarrow> pyval" where
  "py_not v = PBool (\<not> truthy v)"

text \<open>
  \<open>v == n\<close> for an integer literal \<open>n\<close>: Python compares \<open>bool\<close>, \<open>int\<close> and \<open>float\<close> by
  numeric value (\<open>False == 0\<close>, \<open>2.0 == 2\<close>), and nothing else equals a number.
\<close>

fun py_eq_int :: "pyval \<Rightarrow> int \<Rightarrow> bool" where
  "py_eq_int (PInt i) n = (i = n)"
| "py_eq_int (PBool b) n = ((if b then 1 else 0) = n)"
| "py_eq_int (PFloat r) n = (r = of_int n)"
| "py_eq_int v n = False"

text \<open>\<open>v in [n1, n2, ...]\<close> for a list of integer literals.\<close>

definition py_in_ints :: "pyval \<Rightarrow> int list \<Rightarrow> bool" where
  "py_in_ints v ns = list_ex (py_eq_int v) ns"

text \<open>
  \<open>float(v)\<close> and \<open>int(v)\<close>. The parsing of a string is left to two parameters
  (\<open>None\<close> is Python's \<open>ValueError\<close>); the rounding of \<open>float\<close> to double precision is not
  modelled. Neither accepts \<open>None\<close>, a container or a datetime.
\<close>

definition py_float :: "(string \<Rightarrow> real option) \<Rightarrow> pyval \<Rightarrow> error + pyval" where
  "py_float str_to_float v =
     (case v of
        PBool b \<Rightarrow> Inr (PFloat (if b then 1 else 0))
      | PInt i \<Rightarrow> Inr (PFloat (of_int i))
      | PFloat r \<Rightarrow> Inr (PFloat r)
      | PStr s \<Rightarrow> (case str_to_float s of None \<Rightarrow> Inl ValueError | Some r \<Rightarrow> Inr (PFloat r))
      | _ \<Rightarrow> Inl TypeError)"

definition py_int :: "(string \<Rightarrow> int option) \<Rightarrow> pyval \<Rightarrow> error + int" where
  "py_int str_to_int v =
     (case v of
        PBool b \<Rightarrow> Inr (if b then 1 else 0)
      | PInt i \<Rightarrow> Inr i
      | PFloat r \<Rightarrow> Inr (if 0 \<le> r then \<lfloor>r\<rfloor> else \<lceil>r\<rceil>)
      | PStr s \<Rightarrow> (case str_to_int s of None \<Rightarrow> Inl ValueError | Some i \<Rightarrow> Inr i)
      | _ \<Rightarrow> Inl TypeError)"

text \<open>
  \<open>datetime.datetime(year, month, day, hour, minute, second, tzinfo)\<close> raises
  \<open>ValueError\<close> when a component is out of range.
\<close>

definition is_leap :: "int \<Rightarrow> bool" where
  "is_leap y = (y mod 4 = 0 \<and> (y mod 100 \<noteq> 0 \<or> y mod 400 = 0))"

definition days_in_month :: "int \<Rightarrow> int \<Rightarrow> int" where
  "days_in_month y m =
     (if m = 2 then (if is_leap y then 29 else 28)
      else if m = 4 \<or> m = 6 \<or> m = 9 \<or> m = 11 then 30 else 31)"

definition datetime :: "int \<Rightarrow> int \<Rightarrow> int \<Rightarrow> int \<Rightarrow> int \<Rightarrow> int \<Rightarrow> tzinfo \<Rightarrow> error + pyval" where
  "datetime year month day hour minute second tz =
     (if 1 \<le> year \<and> year \<le> 9999 \<and> 1 \<le> month \<and> month \<le> 12
         \<and> 1 \<le> day \<and> day \<le> days_in_month year month
         \<and> 0 \<le> hour \<and> hour \<le> 23 \<and> 0 \<le> minute \<and> minute \<le> 59 \<and> 0 \<le> second \<and> second \<le> 59
      then Inr (PDateTime year month day hour minute second tz)
      else Inl ValueError)"

text \<open>
  A subscript \<open>T[k]\<close> of a table of \<open>const\<close>. The table is the graph of the operation:
  \<open>T k = None\<close> when the subscript raises.
\<close>

definition subscript :: "(pyval \<rightharpoonup> pyval) \<Rightarrow> pyval \<Rightarrow> error + pyval" where
  "subscript T k = (case T k of None \<Rightarrow> Inl SubscriptError | Some v \<Rightarrow> Inr v)"

section \<open>The path resolver\<close>

text \<open>\<open>key.split(".")\<close>.\<close>

fun split_on :: "char \<Rightarrow> string \<Rightarrow> string list" where
  "split_on sep [] = [[]]"
| "split_on sep (c # cs) =
     (if c = sep then [] # split_on sep cs
      else (case split_on sep cs of w # ws \<Rightarrow> (c # w) # ws | [] \<Rightarrow> [[c]]))"

text \<open>
  Modelled from the spec: \<open>utils.get_child_value\<close>, which \<open>Vehicle.py\<close> imports, is not among
  the sources. The specification (4.1) gives its contract: the path is a dot-separated sequence
  of keys; resolution walks the document one segment at a time; if the current value is not a
  traversable mapping, or the key is not present, resolution stops and returns the absence
  marker, without an exception. The marker is \<open>None\<close>: it is what \<open>update_ccs2\<close> tests with
  \<open>is not None\<close>.
\<close>

fun walk :: "pyval \<Rightarrow> string list \<Rightarrow> pyval" where
  "walk v [] = v"
| "walk (PDict kvs) (k # ks) = (case map_of kvs k of None \<Rightarrow> PNone | Some c \<Rightarrow> walk c ks)"
| "walk v (k # ks) = PNone"

definition get_child_value :: "pyval \<Rightarrow> string \<Rightarrow> pyval" where
  "get_child_value data key = walk data (split_on (CHR ''.'') key)"

text \<open>A path is absent from a document when the resolver returns the absence marker.\<close>

definition absent :: "pyval \<Rightarrow> string \<Rightarrow> bool" where
  "absent state path = (get_child_value state path = PNone)"

section \<open>The environment of the module\<close>

text \<open>
  \<open>Vehicle.py\<close> takes three tables and the enumeration \<open>ENGINE_TYPES\<close> from \<open>const\<close>, and
  \<open>get_float\<close> and \<open>parse_datetime\<close> from \<open>utils\<close>; neither module is among the sources, so
  they are parameters of the model, together with the two string parsers behind \<open>float\<close> and
  \<open>int\<close>.
\<close>

record env =
  DISTANCE_UNITS :: "pyval \<rightharpoonup> pyval"
  TEMPERATURE_UNITS :: "pyval \<rightharpoonup> pyval"
  SEAT_STATUS :: "pyval \<rightharpoonup> pyval"
  ENGINE_TYPES_EV :: pyval
  get_float :: "pyval \<Rightarrow> error + pyval"
  parse_datetime :: "pyval \<Rightarrow> tzinfo \<Rightarrow> error + pyval"
  str_to_float :: "string \<Rightarrow> real option"
  str_to_int :: "string \<Rightarrow> int option"

section \<open>The snapshot\<close>

text \<open>
  The dataclass \<open>Vehicle\<close>, field by field and in the order of the source. A private
  attribute \<open>_x\<close> of the source is \<open>u_x\<close> here, and \<open>id\<close> is \<open>id_attr\<close>.
\<close>

record vehicle =
  id_attr :: pyval
  name :: pyval
  model :: pyval
  registration_date :: pyval
  year :: pyval
  VIN :: pyval
  key :: pyval
  ccu_ccs2_protocol_support :: pyval
  enabled :: pyval
  u_total_driving_range :: pyval
  u_total_driving_range_value :: pyval
  u_total_driving_range_unit :: pyval
  u_odometer :: pyval
  u_odometer_value :: pyval
  u_odometer_unit :: pyval
  u_geocode_address :: pyval
  u_geocode_name :: pyval
  car_battery_percentage :: pyval
  engine_is_running :: pyval
  last_updated_at :: pyval
  timezone :: pyval
  dtc_count :: pyval
  dtc_descriptions :: pyval
  smart_key_battery_warning_is_on :: pyval
  washer_fluid_warning_is_on :: pyval
  brake_fluid_warning_is_on :: pyval
  u_air_temperature :: pyval
  u_air_temperature_value :: pyval
  u_air_temperature_unit :: pyval
  air_control_is_on :: pyval
  defrost_is_on :: pyval
  steering_wheel_heater_is_on :: pyval
  back_window_heater_is_on :: pyval
  side_mirror_heater_is_on :: pyval
  front_left_seat_status :: pyval
  front_right_seat_status :: pyval
  rear_left_seat_status :: pyval
  rear_right_seat_status :: pyval
  is_locked :: pyval
  front_left_door_is_open :: pyval
  front_right_door_is_open :: pyval
  back_left_door_is_open :: pyval
  back_right_door_is_open :: pyval
  trunk_is_open :: pyval
  hood_is_open :: pyval
  front_left_window_is_open :: pyval
  front_right_window_is_open :: pyval
  back_left_window_is_open :: pyval
  back_right_window_is_open :: pyval
  tire_pressure_all_warning_is_on :: pyval
  tire_pressure_rear_left_warning_is_on :: pyval
  tire_pressure_front_left_warning_is_on :: pyval
  tire_pressure_front_right_warning_is_on :: pyval
  tire_pressure_rear_right_warning_is_on :: pyval
  u_next_service_distance :: pyval
  u_next_service_distance_value :: pyval
  u_next_service_distance_unit :: pyval
  u_last_service_distance :: pyval
  u_last_service_distance_value :: pyval
  u_last_service_distance_unit :: pyval
  u_location_latitude :: pyval
  u_location_longitude :: pyval
  u_location_last_set_time :: pyval
  ev_charge_port_door_is_open :: pyval
  ev_charge_limits_dc :: pyval
  ev_charge_limits_ac :: pyval
  ev_v2l_discharge_limit :: pyval
  total_power_consumed :: pyval
  total_power_regenerated :: pyval
  power_consumption_30d :: pyval
  daily_stats :: pyval
  month_trip_info :: pyval
  day_trip_info :: pyval
  ev_battery_percentage :: pyval
  ev_battery_soh_percentage :: pyval
  ev_battery_remain :: pyval
  ev_battery_capacity :: pyval
  ev_battery_is_charging :: pyval
  ev_battery_is_plugged_in :: pyval
  u_ev_driving_range :: pyval
  u_ev_driving_range_value :: pyval
  u_ev_driving_range_unit :: pyval
  u_ev_estimated_current_charge_duration :: pyval
  u_ev_estimated_current_charge_duration_value :: pyval
  u_ev_estimated_current_charge_duration_unit :: pyval
  u_ev_estimated_fast_charge_duration :: pyval
  u_ev_estimated_fast_charge_duration_value :: pyval
  u_ev_estimated_fast_charge_duration_unit :: pyval
  u_ev_estimated_portable_charge_duration :: pyval
  u_ev_estimated_portable_charge_duration_value :: pyval
  u_ev_estimated_portable_charge_duration_unit :: pyval
  u_ev_estimated_station_charge_duration :: pyval
  u_ev_estimated_station_charge_duration_value :: pyval
  u_ev_estimated_station_charge_duration_unit :: pyval
  u_ev_target_range_charge_AC :: pyval
  u_ev_target_range_charge_AC_value :: pyval
  u_ev_target_range_charge_AC_unit :: pyval
  u_ev_target_range_charge_DC :: pyval
  u_ev_target_range_charge_DC_value :: pyval
  u_ev_target_range_charge_DC_unit :: pyval
  ev_first_departure_enabled :: pyval
  ev_second_departure_enabled :: pyval
  ev_first_departure_days :: pyval
  ev_second_departure_days :: pyval
  ev_first_departure_time :: pyval
  ev_second_departure_time :: pyval
  ev_off_peak_start_time :: pyval
  ev_off_peak_end_time :: pyval
  ev_off_peak_charge_only_enabled :: pyval
  u_fuel_driving_range :: pyval
  u_fuel_driving_range_value :: pyval
  u_fuel_driving_range_unit :: pyval
  fuel_level :: pyval
  fuel_level_is_low :: pyval
  engine_type :: pyval
  data :: pyval

text \<open>\<open>Vehicle()\<close>: every field at the default the dataclass declares.\<close>

definition Vehicle_init :: vehicle where
  "Vehicle_init = \<lparr>
    id_attr = PNone, name = PNone, model = PNone, registration_date = PNone, year = PNone,
    VIN = PNone, key = PNone, ccu_ccs2_protocol_support = PNone, enabled = PBool True,
    u_total_driving_range = PNone, u_total_driving_range_value = PNone,
    u_total_driving_range_unit = PNone, u_odometer = PNone, u_odometer_value = PNone,
    u_odometer_unit = PNone, u_geocode_address = PNone, u_geocode_name = PNone,
    car_battery_percentage = PNone, engine_is_running = PNone, last_updated_at = PNone,
    timezone = PTz (TZ ''UTC''), dtc_count = PNone, dtc_descriptions = PNone,
    smart_key_battery_warning_is_on = PNone, washer_fluid_warning_is_on = PNone,
    brake_fluid_warning_is_on = PNone, u_air_temperature = PNone,
    u_air_temperature_value = PNone, u_air_temperature_unit = PNone, air_control_is_on = PNone,
    defrost_is_on = PNone, steering_wheel_heater_is_on = PNone,
    back_window_heater_is_on = PNone, side_mirror_heater_is_on = PNone,
    front_left_seat_status = PNone, front_right_seat_status = PNone,
    rear_left_seat_status = PNone, rear_right_seat_status = PNone, is_locked = PNone,
    front_left_door_is_open = PNone, front_right_door_is_open = PNone,
    back_left_door_is_open = PNone, back_right_door_is_open = PNone, trunk_is_open = PNone,
    hood_is_open = PNone, front_left_window_is_open = PNone,
    front_right_window_is_open = PNone, back_left_window_is_open = PNone,
    back_right_window_is_open = PNone, tire_pressure_all_warning_is_on = PNone,
    tire_pressure_rear_left_warning_is_on = PNone,
    tire_pressure_front_left_warning_is_on = PNone,
    tire_pressure_front_right_warning_is_on = PNone,
    tire_pressure_rear_right_warning_is_on = PNone, u_next_service_distance = PNone,
    u_next_service_distance_value = PNone, u_next_service_distance_unit = PNone,
    u_last_service_distance = PNone, u_last_service_distance_value = PNone,
    u_last_service_distance_unit = PNone, u_location_latitude = PNone,
    u_location_longitude = PNone, u_location_last_set_time = PNone,
    ev_charge_port_door_is_open = PNone, ev_charge_limits_dc = PNone,
    ev_charge_limits_ac = PNone, ev_v2l_discharge_limit = PNone, total_power_consumed = PNone,
    total_power_regenerated = PNone, power_consumption_30d = PNone, daily_stats = PList [],
    month_trip_info = PNone, day_trip_info = PNone, ev_battery_percentage = PNone,
    ev_battery_soh_percentage = PNone, ev_battery_remain = PNone, ev_battery_capacity = PNone,
    ev_battery_is_charging = PNone, ev_battery_is_plugged_in = PNone,
    u_ev_driving_range = PNone, u_ev_driving_range_value = PNone,
    u_ev_driving_range_unit = PNone, u_ev_estimated_current_charge_duration = PNone,
    u_ev_estimated_current_charge_duration_value = PNone,
    u_ev_estimated_current_charge_duration_unit = PNone,
    u_ev_estimated_fast_charge_duration = PNone,
    u_ev_estimated_fast_charge_duration_value = PNone,
    u_ev_estimated_fast_charge_duration_unit = PNone,
    u_ev_estimated_portable_charge_duration = PNone,
    u_ev_estimated_portable_charge_duration_value = PNone,
    u_ev_estimated_portable_charge_duration_unit = PNone,
    u_ev_estimated_station_charge_duration = PNone,
    u_ev_estimated_station_charge_duration_value = PNone,
    u_ev_estimated_station_charge_duration_unit = PNone, u_ev_target_range_charge_AC = PNone,
    u_ev_target_range_charge_AC_value = PNone, u_ev_target_range_charge_AC_unit = PNone,
    u_ev_target_range_charge_DC = PNone, u_ev_target_range_charge_DC_value = PNone,
    u_ev_target_range_charge_DC_unit = PNone, ev_first_departure_enabled = PNone,
    ev_second_departure_enabled = PNone, ev_first_departure_days = PNone,
    ev_second_departure_days = PNone, ev_first_departure_time = PNone,
    ev_second_departure_time = PNone, ev_off_peak_start_time = PNone,
    ev_off_peak_end_time = PNone, ev_off_peak_charge_only_enabled = PNone,
    u_fuel_driving_range = PNone, u_fuel_driving_range_value = PNone,
    u_fuel_driving_range_unit = PNone, fuel_level = PNone, fuel_level_is_low = PNone,
    engine_type = PNone, data = PNone\<rparr>"

section \<open>Statements\<close>

text \<open>
  The pass mutates the snapshot in place, so a statement that raises leaves behind the snapshot
  as it was at that moment. An outcome is either the snapshot of a completed run or the error
  together with the snapshot at the raise.
\<close>

datatype outcome = is_Raised: Raised error vehicle | is_Done: Done vehicle

fun final :: "outcome \<Rightarrow> vehicle" where
  "final (Raised e s) = s"
| "final (Done s) = s"

type_synonym stmt = "vehicle \<Rightarrow> outcome"

text \<open>A block of statements runs in order and stops at the first one that raises.\<close>

fun exec :: "stmt list \<Rightarrow> stmt" where
  "exec [] self = Done self"
| "exec (c # cs) self = (case c self of Raised e s \<Rightarrow> Raised e s | Done s \<Rightarrow> exec cs s)"

text \<open>\<open>pass\<close>, the empty branch of a conditional.\<close>

definition skip :: stmt where
  "skip self = Done self"

text \<open>\<open>self.field = v\<close>.\<close>

definition setattr :: "((pyval \<Rightarrow> pyval) \<Rightarrow> vehicle \<Rightarrow> vehicle) \<Rightarrow> pyval \<Rightarrow> stmt" where
  "setattr field_update v self = Done (field_update (\<lambda>_. v) self)"

text \<open>
  Evaluate an expression that may raise and hand its value to the rest of the statement; when
  it raises, nothing has been written.
\<close>

definition evaluate :: "error + 'a \<Rightarrow> ('a \<Rightarrow> stmt) \<Rightarrow> stmt" where
  "evaluate rhs k self = (case rhs of Inl e \<Rightarrow> Raised e self | Inr v \<Rightarrow> k v self)"

subsection \<open>Properties of the class\<close>

definition total_driving_range :: "vehicle \<Rightarrow> pyval" where
  "total_driving_range self = u_total_driving_range self"

definition total_driving_range_unit :: "vehicle \<Rightarrow> pyval" where
  "total_driving_range_unit self = u_total_driving_range_unit self"

definition total_driving_range_setter :: "pyval \<times> pyval \<Rightarrow> stmt" where
  "total_driving_range_setter value self =
     Done (self\<lparr>u_total_driving_range_value := fst value,
                u_total_driving_range_unit := snd value,
                u_total_driving_range := fst value\<rparr>)"

definition next_service_distance_setter :: "pyval \<times> pyval \<Rightarrow> stmt" where
  "next_service_distance_setter value self =
     Done (self\<lparr>u_next_service_distance_value := fst value,
                u_next_service_distance_unit := snd value,
                u_next_service_distance := fst value\<rparr>)"

definition last_service_distance_setter :: "pyval \<times> pyval \<Rightarrow> stmt" where
  "last_service_distance_setter value self =
     Done (self\<lparr>u_last_service_distance_value := fst value,
                u_last_service_distance_unit := snd value,
                u_last_service_distance := fst value\<rparr>)"

definition location_setter :: "pyval \<times> pyval \<times> pyval \<Rightarrow> stmt" where
  "location_setter value self =
     Done (self\<lparr>u_location_latitude := fst value,
                u_location_longitude := fst (snd value),
                u_location_last_set_time := snd (snd value)\<rparr>)"

definition odometer_setter :: "env \<Rightarrow> pyval \<times> pyval \<Rightarrow> stmt" where
  "odometer_setter env value self =
     (case get_float env (fst value) of
        Inl e \<Rightarrow> Raised e self
      | Inr float_value \<Rightarrow>
          Done (self\<lparr>u_odometer_value := float_value,
                     u_odometer_unit := snd value,
                     u_odometer := float_value\<rparr>))"

definition air_temperature_setter :: "pyval \<times> pyval \<Rightarrow> stmt" where
  "air_temperature_setter value self =
     Done (self\<lparr>u_air_temperature_value := fst value,
                u_air_temperature_unit := snd value,
                u_air_temperature := fst value\<rparr>)"

definition ev_driving_range_setter :: "pyval \<times> pyval \<Rightarrow> stmt" where
  "ev_driving_range_setter value self =
     Done (self\<lparr>u_ev_driving_range_value := fst value,
                u_ev_driving_range_unit := snd value,
                u_ev_driving_range := fst value\<rparr>)"

definition ev_estimated_current_charge_duration_setter :: "pyval \<times> pyval \<Rightarrow> stmt" where
  "ev_estimated_current_charge_duration_setter value self =
     Done (self\<lparr>u_ev_estimated_current_charge_duration_value := fst value,
                u_ev_estimated_current_charge_duration_unit := snd value,
                u_ev_estimated_current_charge_duration := fst value\<rparr>)"

definition ev_estimated_fast_charge_duration_setter :: "pyval \<times> pyval \<Rightarrow> stmt" where
  "ev_estimated_fast_charge_duration_setter value self =
     Done (self\<lparr>u_ev_estimated_fast_charge_duration_value := fst value,
                u_ev_estimated_fast_charge_duration_unit := snd value,
                u_ev_estimated_fast_charge_duration := fst value\<rparr>)"

definition ev_estimated_portable_charge_duration_setter :: "pyval \<times> pyval \<Rightarrow> stmt" where
  "ev_estimated_portable_charge_duration_setter value self =
     Done (self\<lparr>u_ev_estimated_portable_charge_duration_value := fst value,
                u_ev_estimated_portable_charge_duration_unit := snd value,
                u_ev_estimated_portable_charge_duration := fst value\<rparr>)"

definition ev_estimated_station_charge_duration_setter :: "pyval \<times> pyval \<Rightarrow> stmt" where
  "ev_estimated_station_charge_duration_setter value self =
     Done (self\<lparr>u_ev_estimated_station_charge_duration_value := fst value,
                u_ev_estimated_station_charge_duration_unit := snd value,
                u_ev_estimated_station_charge_duration := fst value\<rparr>)"

definition ev_target_range_charge_AC_setter :: "pyval \<times> pyval \<Rightarrow> stmt" where
  "ev_target_range_charge_AC_setter value self =
     Done (self\<lparr>u_ev_target_range_charge_AC_value := fst value,
                u_ev_target_range_charge_AC_unit := snd value,
                u_ev_target_range_charge_AC := fst value\<rparr>)"

definition ev_target_range_charge_DC_setter :: "pyval \<times> pyval \<Rightarrow> stmt" where
  "ev_target_range_charge_DC_setter value self =
     Done (self\<lparr>u_ev_target_range_charge_DC_value := fst value,
                u_ev_target_range_charge_DC_unit := snd value,
                u_ev_target_range_charge_DC := fst value\<rparr>)"

definition fuel_driving_range_setter :: "pyval \<times> pyval \<Rightarrow> stmt" where
  "fuel_driving_range_setter value self =
     Done (self\<lparr>u_fuel_driving_range_value := fst value,
                u_fuel_driving_range_unit := snd value,
                u_fuel_driving_range := fst value\<rparr>)"

section \<open>The translation pass\<close>

text \<open>
  \<open>Vehicle.update_ccs2\<close>, statement by statement. \<open>now\<close> is the clock read by
  \<open>datetime.datetime.now(timezone)\<close> during this call. The argument \<open>timezone\<close> of the source is \<open>tz\<close> here. A tuple handed to a property setter is
  evaluated left to right before the setter runs.
\<close>

definition ccs2_statements :: "env \<Rightarrow> (tzinfo \<Rightarrow> pyval) \<Rightarrow> tzinfo \<Rightarrow> pyval \<Rightarrow> stmt list" where
  "ccs2_statements env now tz state =
   [ (if truthy (get_child_value state ''Date'')
      then evaluate (parse_datetime env (get_child_value state ''Date'') tz)
             (setattr last_updated_at_update)
      else setattr last_updated_at_update (now tz)),

     evaluate (subscript (DISTANCE_UNITS env) (PInt 1)) (\<lambda>unit.
       odometer_setter env (get_child_value state ''Drivetrain.Odometer'', unit)),
     setattr car_battery_percentage_update (get_child_value state ''Electronics.Battery.Level''),

     setattr engine_is_running_update (get_child_value state ''DrivingReady''),

     (let air_temp = get_child_value state ''Cabin.HVAC.Row1.Driver.Temperature.Value'' in
      if air_temp \<noteq> PStr ''OFF''
      then evaluate (subscript (TEMPERATURE_UNITS env) (PInt 1)) (\<lambda>unit.
             air_temperature_setter (air_temp, unit))
      else skip),

     (let defrost_is_on_v = get_child_value state ''Body.Windshield.Front.Defog.State'' in
      if py_in_ints defrost_is_on_v [0, 2] then setattr defrost_is_on_update (PBool False)
      else if py_eq_int defrost_is_on_v 1 then setattr defrost_is_on_update (PBool True)
      else skip),

     (let steer_wheel_heat = get_child_value state ''Cabin.SteeringWheel.Heat.State'' in
      if py_in_ints steer_wheel_heat [0, 2]
      then setattr steering_wheel_heater_is_on_update (PBool False)
      else if py_eq_int steer_wheel_heat 1
      then setattr steering_wheel_heater_is_on_update (PBool True)
      else skip),

     (let defrost_rear_is_on = get_child_value state ''Body.Windshield.Rear.Defog.State'' in
      if py_in_ints defrost_rear_is_on [0, 2]
      then setattr back_window_heater_is_on_update (PBool False)
      else if py_eq_int defrost_rear_is_on 1
      then setattr back_window_heater_is_on_update (PBool True)
      else skip),

     evaluate (subscript (SEAT_STATUS env)
                 (get_child_value state ''Cabin.Seat.Row1.Driver.Climate.State''))
       (setattr front_left_seat_status_update),

     evaluate (subscript (SEAT_STATUS env)
                 (get_child_value state ''Cabin.Seat.Row1.Passenger.Climate.State''))
       (setattr front_right_seat_status_update),

     evaluate (subscript (SEAT_STATUS env)
                 (get_child_value state ''Cabin.Seat.Row2.Left.Climate.State''))
       (setattr rear_left_seat_status_update),

     evaluate (subscript (SEAT_STATUS env)
                 (get_child_value state ''Cabin.Seat.Row2.Right.Climate.State''))
       (setattr rear_right_seat_status_update),

     setattr front_left_door_is_open_update (get_child_value state ''Cabin.Door.Row1.Driver.Open''),
     setattr front_right_door_is_open_update
       (get_child_value state ''Cabin.Door.Row1.Passenger.Open''),
     setattr back_left_door_is_open_update (get_child_value state ''Cabin.Door.Row2.Left.Open''),
     setattr back_right_door_is_open_update (get_child_value state ''Cabin.Door.Row2.Right.Open''),

     (\<lambda>self. setattr is_locked_update
        (py_not (py_or (py_or (py_or (front_left_door_is_open self)
                                     (front_right_door_is_open self))
                              (back_left_door_is_open self))
                       (back_right_door_is_open self))) self),

     setattr hood_is_open_update (get_child_value state ''Body.Hood.Open''),
     setattr front_left_window_is_open_update
       (get_child_value state ''Cabin.Window.Row1.Driver.Open''),
     setattr front_right_window_is_open_update
       (get_child_value state ''Cabin.Window.Row1.Passenger.Open''),
     setattr back_left_window_is_open_update
       (get_child_value state ''Cabin.Window.Row2.Left.Open''),
     setattr back_right_window_is_open_update
       (get_child_value state ''Cabin.Window.Row2.Right.Open''),
     setattr tire_pressure_rear_left_warning_is_on_update
       (py_bool (get_child_value state ''Chassis.Axle.Row2.Left.Tire.PressureLow'')),
     setattr tire_pressure_front_left_warning_is_on_update
       (py_bool (get_child_value state ''Chassis.Axle.Row1.Left.Tire.PressureLow'')),
     setattr tire_pressure_front_right_warning_is_on_update
       (py_bool (get_child_value state ''Chassis.Axle.Row1.Right.Tire.PressureLow'')),
     setattr tire_pressure_rear_right_warning_is_on_update
       (py_bool (get_child_value state ''Chassis.Axle.Row2.Right.Tire.PressureLow'')),
     setattr tire_pressure_all_warning_is_on_update
       (py_bool (get_child_value state ''Chassis.Axle.Tire.PressureLow'')),
     setattr trunk_is_open_update (get_child_value state ''Body.Trunk.Open''),

     setattr ev_battery_percentage_update
       (get_child_value state ''Green.BatteryManagement.BatteryRemain.Ratio''),
     setattr ev_battery_remain_update
       (get_child_value state ''Green.BatteryManagement.BatteryRemain.Value''),
     setattr ev_battery_capacity_update
       (get_child_value state ''Green.BatteryManagement.BatteryCapacity.Value''),
     setattr ev_battery_soh_percentage_update
       (get_child_value state ''Green.BatteryManagement.SoH.Ratio''),
     setattr ev_battery_is_plugged_in_update
       (get_child_value state ''Green.ChargingInformation.ElectricCurrentLevel.State''),
     setattr ev_battery_is_plugged_in_update
       (get_child_value state ''Green.ChargingInformation.ConnectorFastening.State''),
     (let charging_door_state = get_child_value state ''Green.ChargingDoor.State'' in
      if py_in_ints charging_door_state [0, 2]
      then setattr ev_charge_port_door_is_open_update (PBool False)
      else if py_eq_int charging_door_state 1
      then setattr ev_charge_port_door_is_open_update (PBool True)
      else skip),

     evaluate (py_float (str_to_float env)
                 (get_child_value state ''Drivetrain.FuelSystem.DTE.Total'')) (\<lambda>total.
       evaluate (subscript (DISTANCE_UNITS env)
                   (get_child_value state ''Drivetrain.FuelSystem.DTE.Unit'')) (\<lambda>unit.
         total_driving_range_setter (total, unit))),

     (\<lambda>self. if engine_type self = ENGINE_TYPES_EV env
        then ev_driving_range_setter (total_driving_range self, total_driving_range_unit self) self
        else skip self),

     setattr washer_fluid_warning_is_on_update
       (get_child_value state ''Body.Windshield.Front.WasherFluid.LevelLow''),

     ev_estimated_current_charge_duration_setter
       (get_child_value state ''Green.ChargingInformation.Charging.RemainTime'', PStr ''m''),
     ev_estimated_fast_charge_duration_setter
       (get_child_value state ''Green.ChargingInformation.EstimatedTime.Standard'', PStr ''m''),
     ev_estimated_portable_charge_duration_setter
       (get_child_value state ''Green.ChargingInformation.EstimatedTime.ICCB'', PStr ''m''),
     ev_estimated_station_charge_duration_setter
       (get_child_value state ''Green.ChargingInformation.EstimatedTime.Quick'', PStr ''m''),
     setattr ev_charge_limits_ac_update
       (get_child_value state ''Green.ChargingInformation.TargetSoC.Standard''),
     setattr ev_charge_limits_dc_update
       (get_child_value state ''Green.ChargingInformation.TargetSoC.Quick''),
     setattr ev_v2l_discharge_limit_update
       (get_child_value state
          ''Green.Electric.SmartGrid.VehicleToLoad.DischargeLimitation.SoC''),
     evaluate (subscript (DISTANCE_UNITS env)
                 (get_child_value state ''Drivetrain.FuelSystem.DTE.Unit'')) (\<lambda>unit.
       ev_target_range_charge_AC_setter
         (get_child_value state ''Green.ChargingInformation.DTE.TargetSoC.Standard'', unit)),
     evaluate (subscript (DISTANCE_UNITS env)
                 (get_child_value state ''Drivetrain.FuelSystem.DTE.Unit'')) (\<lambda>unit.
       ev_target_range_charge_DC_setter
         (get_child_value state ''Green.ChargingInformation.DTE.TargetSoC.Quick'', unit)),
     setattr ev_first_departure_enabled_update
       (py_bool (get_child_value state ''Green.Reservation.Departure.Schedule1.Enable'')),

     setattr ev_second_departure_enabled_update
       (py_bool (get_child_value state ''Green.Reservation.Departure.Schedule2.Enable'')),

     setattr washer_fluid_warning_is_on_update
       (get_child_value state ''Body.Windshield.Front.WasherFluid.LevelLow''),
     setattr brake_fluid_warning_is_on_update
       (get_child_value state ''Chassis.Brake.Fluid.Warning''),

     setattr fuel_level_update (get_child_value state ''Drivetrain.FuelSystem.FuelLevel''),
     setattr fuel_level_is_low_update
       (get_child_value state ''Drivetrain.FuelSystem.LowFuelWarning''),
     setattr air_control_is_on_update
       (get_child_value state ''Cabin.HVAC.Row1.Driver.Blower.SpeedLevel''),
     setattr smart_key_battery_warning_is_on_update
       (py_bool (get_child_value state ''Electronics.FOB.LowBattery'')),

     (if truthy (get_child_value state ''Location.GeoCoord.Latitude'')
      then
        (let timestamp = get_child_value state ''Location.TimeStamp'' in
         (if timestamp \<noteq> PNone
          then
            evaluate (py_int (str_to_int env) (get_child_value timestamp ''Year'')) (\<lambda>year.
            evaluate (py_int (str_to_int env) (get_child_value timestamp ''Mon'')) (\<lambda>month.
            evaluate (py_int (str_to_int env) (get_child_value timestamp ''Day'')) (\<lambda>day.
            evaluate (py_int (str_to_int env) (get_child_value timestamp ''Hour'')) (\<lambda>hour.
            evaluate (py_int (str_to_int env) (get_child_value timestamp ''Min'')) (\<lambda>minute.
            evaluate (py_int (str_to_int env) (get_child_value timestamp ''Sec'')) (\<lambda>second.
            evaluate (datetime year month day hour minute second tz)
              (\<lambda>location_last_updated_at.
                 location_setter
                   (get_child_value state ''Location.GeoCoord.Latitude'',
                    get_child_value state ''Location.GeoCoord.Longitude'',
                    location_last_updated_at))))))))
          else
            location_setter
              (get_child_value state ''Location.GeoCoord.Latitude'',
               get_child_value state ''Location.GeoCoord.Longitude'',
               PDateTime 2000 1 1 0 0 0 tz)))
      else skip),

     setattr data_update state ]"

definition update_ccs2 :: "env \<Rightarrow> (tzinfo \<Rightarrow> pyval) \<Rightarrow> tzinfo \<Rightarrow> pyval \<Rightarrow> vehicle \<Rightarrow> outcome" where
  "update_ccs2 env now tz state self = exec (ccs2_statements env now tz state) self"

section \<open>What a pass leaves behind\<close>

text \<open>The snapshot a single statement leaves, whether it raised or not.\<close>

definition run1 :: "stmt \<Rightarrow> vehicle \<Rightarrow> vehicle" where
  "run1 c t = final (c t)"

text \<open>
  The timestamp of the location block: the six \<open>int(...)\<close> conversions in the order of the
  source, then the constructor.
\<close>

definition location_time :: "env \<Rightarrow> tzinfo \<Rightarrow> pyval \<Rightarrow> error + pyval" where
  "location_time env tz timestamp =
     (case py_int (str_to_int env) (get_child_value timestamp ''Year'') of
        Inl e \<Rightarrow> Inl e
      | Inr y \<Rightarrow>
     (case py_int (str_to_int env) (get_child_value timestamp ''Mon'') of
        Inl e \<Rightarrow> Inl e
      | Inr mo \<Rightarrow>
     (case py_int (str_to_int env) (get_child_value timestamp ''Day'') of
        Inl e \<Rightarrow> Inl e
      | Inr d \<Rightarrow>
     (case py_int (str_to_int env) (get_child_value timestamp ''Hour'') of
        Inl e \<Rightarrow> Inl e
      | Inr h \<Rightarrow>
     (case py_int (str_to_int env) (get_child_value timestamp ''Min'') of
        Inl e \<Rightarrow> Inl e
      | Inr mi \<Rightarrow>
     (case py_int (str_to_int env) (get_child_value timestamp ''Sec'') of
        Inl e \<Rightarrow> Inl e
      | Inr sec \<Rightarrow> datetime y mo d h mi sec tz))))))"

text \<open>
  The conditions under which no statement of the pass raises. They depend on the document, the
  timezone and the environment only, never on the snapshot.
\<close>

definition ccs2_completes :: "env \<Rightarrow> tzinfo \<Rightarrow> pyval \<Rightarrow> bool" where
  "ccs2_completes env tz state \<longleftrightarrow>
    (truthy (get_child_value state ''Date'') \<longrightarrow>
       \<not> isl (parse_datetime env (get_child_value state ''Date'') tz)) \<and>
    PInt 1 \<in> dom (DISTANCE_UNITS env) \<and>
    \<not> isl (get_float env (get_child_value state ''Drivetrain.Odometer'')) \<and>
    (get_child_value state ''Cabin.HVAC.Row1.Driver.Temperature.Value'' \<noteq> PStr ''OFF'' \<longrightarrow>
       PInt 1 \<in> dom (TEMPERATURE_UNITS env)) \<and>
    get_child_value state ''Cabin.Seat.Row1.Driver.Climate.State'' \<in> dom (SEAT_STATUS env) \<and>
    get_child_value state ''Cabin.Seat.Row1.Passenger.Climate.State'' \<in> dom (SEAT_STATUS env) \<and>
    get_child_value state ''Cabin.Seat.Row2.Left.Climate.State'' \<in> dom (SEAT_STATUS env) \<and>
    get_child_value state ''Cabin.Seat.Row2.Right.Climate.State'' \<in> dom (SEAT_STATUS env) \<and>
    \<not> isl (py_float (str_to_float env)
             (get_child_value state ''Drivetrain.FuelSystem.DTE.Total'')) \<and>
    get_child_value state ''Drivetrain.FuelSystem.DTE.Unit'' \<in> dom (DISTANCE_UNITS env) \<and>
    (truthy (get_child_value state ''Location.GeoCoord.Latitude'') \<and>
     get_child_value state ''Location.TimeStamp'' \<noteq> PNone \<longrightarrow>
       \<not> isl (location_time env tz (get_child_value state ''Location.TimeStamp'')))"

text \<open>
  The snapshot a completed pass leaves, as one record update of the snapshot it started from
  (lemma \<open>update_ccs2_Done_iff\<close> below derives it from \<open>update_ccs2\<close>).
\<close>

definition ccs2_writes :: "env \<Rightarrow> (tzinfo \<Rightarrow> pyval) \<Rightarrow> tzinfo \<Rightarrow> pyval \<Rightarrow> vehicle \<Rightarrow> vehicle" where
  "ccs2_writes env now tz state self =
     self\<lparr>
       last_updated_at := (if truthy (get_child_value state ''Date'') then projr (parse_datetime
         env (get_child_value state ''Date'') tz) else now tz),
       u_odometer_value := projr (get_float env (get_child_value state ''Drivetrain.Odometer'')),
       u_odometer_unit := the (DISTANCE_UNITS env (PInt 1)),
       u_odometer := projr (get_float env (get_child_value state ''Drivetrain.Odometer'')),
       car_battery_percentage := get_child_value state ''Electronics.Battery.Level'',
       engine_is_running := get_child_value state ''DrivingReady'',
       u_air_temperature_value := (if get_child_value state
         ''Cabin.HVAC.Row1.Driver.Temperature.Value'' \<noteq> PStr ''OFF'' then get_child_value
         state ''Cabin.HVAC.Row1.Driver.Temperature.Value'' else u_air_temperature_value self),
       u_air_temperature_unit := (if get_child_value state
         ''Cabin.HVAC.Row1.Driver.Temperature.Value'' \<noteq> PStr ''OFF'' then the
         (TEMPERATURE_UNITS env (PInt 1)) else u_air_temperature_unit self),
       u_air_temperature := (if get_child_value state
         ''Cabin.HVAC.Row1.Driver.Temperature.Value'' \<noteq> PStr ''OFF'' then get_child_value
         state ''Cabin.HVAC.Row1.Driver.Temperature.Value'' else u_air_temperature self),
       defrost_is_on := (if py_in_ints (get_child_value state
         ''Body.Windshield.Front.Defog.State'') [0, 2] then PBool False else if py_eq_int
         (get_child_value state ''Body.Windshield.Front.Defog.State'') 1 then PBool True else
         defrost_is_on self),
       steering_wheel_heater_is_on := (if py_in_ints (get_child_value state
         ''Cabin.SteeringWheel.Heat.State'') [0, 2] then PBool False else if py_eq_int
         (get_child_value state ''Cabin.SteeringWheel.Heat.State'') 1 then PBool True else
         steering_wheel_heater_is_on self),
       back_window_heater_is_on := (if py_in_ints (get_child_value state
         ''Body.Windshield.Rear.Defog.State'') [0, 2] then PBool False else if py_eq_int
         (get_child_value state ''Body.Windshield.Rear.Defog.State'') 1 then PBool True else
         back_window_heater_is_on self),
       front_left_seat_status := the (SEAT_STATUS env (get_child_value state
         ''Cabin.Seat.Row1.Driver.Climate.State'')),
       front_right_seat_status := the (SEAT_STATUS env (get_child_value state
         ''Cabin.Seat.Row1.Passenger.Climate.State'')),
       rear_left_seat_status := the (SEAT_STATUS env (get_child_value state
         ''Cabin.Seat.Row2.Left.Climate.State'')),
       rear_right_seat_status := the (SEAT_STATUS env (get_child_value state
         ''Cabin.Seat.Row2.Right.Climate.State'')),
       front_left_door_is_open := get_child_value state ''Cabin.Door.Row1.Driver.Open'',
       front_right_door_is_open := get_child_value state ''Cabin.Door.Row1.Passenger.Open'',
       back_left_door_is_open := get_child_value state ''Cabin.Door.Row2.Left.Open'',
       back_right_door_is_open := get_child_value state ''Cabin.Door.Row2.Right.Open'',
       is_locked := py_not (py_or (py_or (py_or (get_child_value state
         ''Cabin.Door.Row1.Driver.Open'') (get_child_value state
         ''Cabin.Door.Row1.Passenger.Open'')) (get_child_value state
         ''Cabin.Door.Row2.Left.Open'')) (get_child_value state ''Cabin.Door.Row2.Right.Open'')),
       hood_is_open := get_child_value state ''Body.Hood.Open'',
       front_left_window_is_open := get_child_value state ''Cabin.Window.Row1.Driver.Open'',
       front_right_window_is_open := get_child_value state ''Cabin.Window.Row1.Passenger.Open'',
       back_left_window_is_open := get_child_value state ''Cabin.Window.Row2.Left.Open'',
       back_right_window_is_open := get_child_value state ''Cabin.Window.Row2.Right.Open'',
       tire_pressure_rear_left_warning_is_on := py_bool (get_child_value state
         ''Chassis.Axle.Row2.Left.Tire.PressureLow''),
       tire_pressure_front_left_warning_is_on := py_bool (get_child_value state
         ''Chassis.Axle.Row1.Left.Tire.PressureLow''),
       tire_pressure_front_right_warning_is_on := py_bool (get_child_value state
         ''Chassis.Axle.Row1.Right.Tire.PressureLow''),
       tire_pressure_rear_right_warning_is_on := py_bool (get_child_value state
         ''Chassis.Axle.Row2.Right.Tire.PressureLow''),
       tire_pressure_all_warning_is_on := py_bool (get_child_value state
         ''Chassis.Axle.Tire.PressureLow''),
       trunk_is_open := get_child_value state ''Body.Trunk.Open'',
       ev_battery_percentage := get_child_value state
         ''Green.BatteryManagement.BatteryRemain.Ratio'',
       ev_battery_remain := get_child_value state
         ''Green.BatteryManagement.BatteryRemain.Value'',
       ev_battery_capacity := get_child_value state
         ''Green.BatteryManagement.BatteryCapacity.Value'',
       ev_battery_soh_percentage := get_child_value state ''Green.BatteryManagement.SoH.Ratio'',
       ev_battery_is_plugged_in := get_child_value state
         ''Green.ChargingInformation.ConnectorFastening.State'',
       ev_charge_port_door_is_open := (if py_in_ints (get_child_value state
         ''Green.ChargingDoor.State'') [0, 2] then PBool False else if py_eq_int
         (get_child_value state ''Green.ChargingDoor.State'') 1 then PBool True else
         ev_charge_port_door_is_open self),
       u_total_driving_range_value := projr (py_float (str_to_float env) (get_child_value state
         ''Drivetrain.FuelSystem.DTE.Total'')),
       u_total_driving_range_unit := the (DISTANCE_UNITS env (get_child_value state
         ''Drivetrain.FuelSystem.DTE.Unit'')),
       u_total_driving_range := projr (py_float (str_to_float env) (get_child_value state
         ''Drivetrain.FuelSystem.DTE.Total'')),
       u_ev_driving_range_value := (if engine_type self = ENGINE_TYPES_EV env then projr
         (py_float (str_to_float env) (get_child_value state
         ''Drivetrain.FuelSystem.DTE.Total'')) else u_ev_driving_range_value self),
       u_ev_driving_range_unit := (if engine_type self = ENGINE_TYPES_EV env then the
         (DISTANCE_UNITS env (get_child_value state ''Drivetrain.FuelSystem.DTE.Unit'')) else
         u_ev_driving_range_unit self),
       u_ev_driving_range := (if engine_type self = ENGINE_TYPES_EV env then projr (py_float
         (str_to_float env) (get_child_value state ''Drivetrain.FuelSystem.DTE.Total'')) else
         u_ev_driving_range self),
       u_ev_estimated_current_charge_duration_value := get_child_value state
         ''Green.ChargingInformation.Charging.RemainTime'',
       u_ev_estimated_current_charge_duration_unit := PStr ''m'',
       u_ev_estimated_current_charge_duration := get_child_value state
         ''Green.ChargingInformation.Charging.RemainTime'',
       u_ev_estimated_fast_charge_duration_value := get_child_value state
         ''Green.ChargingInformation.EstimatedTime.Standard'',
       u_ev_estimated_fast_charge_duration_unit := PStr ''m'',
       u_ev_estimated_fast_charge_duration := get_child_value state
         ''Green.ChargingInformation.EstimatedTime.Standard'',
       u_ev_estimated_portable_charge_duration_value := get_child_value state
         ''Green.ChargingInformation.EstimatedTime.ICCB'',
       u_ev_estimated_portable_charge_duration_unit := PStr ''m'',
       u_ev_estimated_portable_charge_duration := get_child_value state
         ''Green.ChargingInformation.EstimatedTime.ICCB'',
       u_ev_estimated_station_charge_duration_value := get_child_value state
         ''Green.ChargingInformation.EstimatedTime.Quick'',
       u_ev_estimated_station_charge_duration_unit := PStr ''m'',
       u_ev_estimated_station_charge_duration := get_child_value state
         ''Green.ChargingInformation.EstimatedTime.Quick'',
       ev_charge_limits_ac := get_child_value state
         ''Green.ChargingInformation.TargetSoC.Standard'',
       ev_charge_limits_dc := get_child_value state
         ''Green.ChargingInformation.TargetSoC.Quick'',
       ev_v2l_discharge_limit := get_child_value state
         ''Green.Electric.SmartGrid.VehicleToLoad.DischargeLimitation.SoC'',
       u_ev_target_range_charge_AC_value := get_child_value state
         ''Green.ChargingInformation.DTE.TargetSoC.Standard'',
       u_ev_target_range_charge_AC_unit := the (DISTANCE_UNITS env (get_child_value state
         ''Drivetrain.FuelSystem.DTE.Unit'')),
       u_ev_target_range_charge_AC := get_child_value state
         ''Green.ChargingInformation.DTE.TargetSoC.Standard'',
       u_ev_target_range_charge_DC_value := get_child_value state
         ''Green.ChargingInformation.DTE.TargetSoC.Quick'',
       u_ev_target_range_charge_DC_unit := the (DISTANCE_UNITS env (get_child_value state
         ''Drivetrain.FuelSystem.DTE.Unit'')),
       u_ev_target_range_charge_DC := get_child_value state
         ''Green.ChargingInformation.DTE.TargetSoC.Quick'',
       ev_first_departure_enabled := py_bool (get_child_value state
         ''Green.Reservation.Departure.Schedule1.Enable''),
       ev_second_departure_enabled := py_bool (get_child_value state
         ''Green.Reservation.Departure.Schedule2.Enable''),
       washer_fluid_warning_is_on := get_child_value state
         ''Body.Windshield.Front.WasherFluid.LevelLow'',
       brake_fluid_warning_is_on := get_child_value state ''Chassis.Brake.Fluid.Warning'',
       fuel_level := get_child_value state ''Drivetrain.FuelSystem.FuelLevel'',
       fuel_level_is_low := get_child_value state ''Drivetrain.FuelSystem.LowFuelWarning'',
       air_control_is_on := get_child_value state ''Cabin.HVAC.Row1.Driver.Blower.SpeedLevel'',
       smart_key_battery_warning_is_on := py_bool (get_child_value state
         ''Electronics.FOB.LowBattery''),
       u_location_latitude := (if truthy (get_child_value state ''Location.GeoCoord.Latitude'')
         then get_child_value state ''Location.GeoCoord.Latitude'' else u_location_latitude
         self),
       u_location_longitude := (if truthy (get_child_value state ''Location.GeoCoord.Latitude'')
         then get_child_value state ''Location.GeoCoord.Longitude'' else u_location_longitude
         self),
       u_location_last_set_time := (if truthy (get_child_value state
         ''Location.GeoCoord.Latitude'') then if get_child_value state ''Location.TimeStamp''
         \<noteq> PNone then projr (location_time env tz (get_child_value state
         ''Location.TimeStamp'')) else PDateTime 2000 1 1 0 0 0 tz else u_location_last_set_time
         self),
       data := state\<rparr>"

text \<open>
  A statement keeps a field when it leaves the field as it found it, whatever the snapshot and
  whether it raises or not.
\<close>

definition keeps :: "(vehicle \<Rightarrow> 'a) \<Rightarrow> stmt \<Rightarrow> bool" where
  "keeps f c \<longleftrightarrow> (\<forall>t. f (run1 c t) = f t)"

text \<open>The error a pass raised, if it raised.\<close>

fun raised_error :: "outcome \<Rightarrow> error option" where
  "raised_error (Raised e s) = Some e"
| "raised_error (Done s) = None"


text \<open>The three attributes behind a composite field, and behind the location.\<close>

definition odometer_fields :: "vehicle \<Rightarrow> pyval \<times> pyval \<times> pyval" where
  "odometer_fields s = (u_odometer s, u_odometer_value s, u_odometer_unit s)"

definition total_driving_range_fields :: "vehicle \<Rightarrow> pyval \<times> pyval \<times> pyval" where
  "total_driving_range_fields s =
     (u_total_driving_range s, u_total_driving_range_value s, u_total_driving_range_unit s)"

definition air_temperature_fields :: "vehicle \<Rightarrow> pyval \<times> pyval \<times> pyval" where
  "air_temperature_fields s =
     (u_air_temperature s, u_air_temperature_value s, u_air_temperature_unit s)"

definition ev_driving_range_fields :: "vehicle \<Rightarrow> pyval \<times> pyval \<times> pyval" where
  "ev_driving_range_fields s =
     (u_ev_driving_range s, u_ev_driving_range_value s, u_ev_driving_range_unit s)"

definition ev_estimated_current_charge_duration_fields :: "vehicle \<Rightarrow> pyval \<times> pyval \<times> pyval" where
  "ev_estimated_current_charge_duration_fields s =
     (u_ev_estimated_current_charge_duration s, u_ev_estimated_current_charge_duration_value s,
      u_ev_estimated_current_charge_duration_unit s)"

definition ev_estimated_fast_charge_duration_fields :: "vehicle \<Rightarrow> pyval \<times> pyval \<times> pyval" where
  "ev_estimated_fast_charge_duration_fields s =
     (u_ev_estimated_fast_charge_duration s, u_ev_estimated_fast_charge_duration_value s,
      u_ev_estimated_fast_charge_duration_unit s)"

definition ev_estimated_portable_charge_duration_fields :: "vehicle \<Rightarrow> pyval \<times> pyval \<times> pyval" where
  "ev_estimated_portable_charge_duration_fields s =
     (u_ev_estimated_portable_charge_duration s, u_ev_estimated_portable_charge_duration_value s,
      u_ev_estimated_portable_charge_duration_unit s)"

definition ev_estimated_station_charge_duration_fields :: "vehicle \<Rightarrow> pyval \<times> pyval \<times> pyval" where
  "ev_estimated_station_charge_duration_fields s =
     (u_ev_estimated_station_charge_duration s, u_ev_estimated_station_charge_duration_value s,
      u_ev_estimated_station_charge_duration_unit s)"

definition ev_target_range_charge_AC_fields :: "vehicle \<Rightarrow> pyval \<times> pyval \<times> pyval" where
  "ev_target_range_charge_AC_fields s =
     (u_ev_target_range_charge_AC s, u_ev_target_range_charge_AC_value s,
      u_ev_target_range_charge_AC_unit s)"

definition ev_target_range_charge_DC_fields :: "vehicle \<Rightarrow> pyval \<times> pyval \<times> pyval" where
  "ev_target_range_charge_DC_fields s =
     (u_ev_target_range_charge_DC s, u_ev_target_range_charge_DC_value s,
      u_ev_target_range_charge_DC_unit s)"

definition fuel_driving_range_fields :: "vehicle \<Rightarrow> pyval \<times> pyval \<times> pyval" where
  "fuel_driving_range_fields s =
     (u_fuel_driving_range s, u_fuel_driving_range_value s, u_fuel_driving_range_unit s)"

definition next_service_distance_fields :: "vehicle \<Rightarrow> pyval \<times> pyval \<times> pyval" where
  "next_service_distance_fields s =
     (u_next_service_distance s, u_next_service_distance_value s, u_next_service_distance_unit s)"

definition last_service_distance_fields :: "vehicle \<Rightarrow> pyval \<times> pyval \<times> pyval" where
  "last_service_distance_fields s =
     (u_last_service_distance s, u_last_service_distance_value s, u_last_service_distance_unit s)"

definition location_fields :: "vehicle \<Rightarrow> pyval \<times> pyval \<times> pyval" where
  "location_fields s = (u_location_latitude s, u_location_longitude s, u_location_last_set_time s)"



section \<open>An example environment, document and snapshot\<close>

text \<open>
  Concrete inputs on which the theorems below are instantiated. The tables hold the entries the
  examples need; index 1 of \<open>DISTANCE_UNITS\<close> is the kilometre, as the comment at its use in
  \<open>DailyDrivingStats\<close> says.
\<close>

definition example_env :: env where
  "example_env =
     \<lparr>DISTANCE_UNITS = [PInt 1 \<mapsto> PStr ''km'', PInt 2 \<mapsto> PStr ''mi''],
      TEMPERATURE_UNITS = [PInt 1 \<mapsto> PStr ''C''],
      SEAT_STATUS = [PInt 0 \<mapsto> PStr ''Off'', PInt 1 \<mapsto> PStr ''On''],
      ENGINE_TYPES_EV = PObj ''EV'',
      get_float = (\<lambda>v. Inr v),
      parse_datetime = (\<lambda>v tz. Inr (PDateTime 2024 5 17 8 30 0 tz)),
      str_to_float = (\<lambda>s. None),
      str_to_int = (\<lambda>s. None)\<rparr>"

definition example_now :: "tzinfo \<Rightarrow> pyval" where
  "example_now tz = PDateTime 2024 5 17 8 30 0 tz"


definition seat_on :: pyval where
  "seat_on = PDict [(''Climate'', PDict [(''State'', PInt 1)])]"

definition example_seats :: pyval where
  "example_seats =
     PDict [(''Row1'', PDict [(''Driver'', seat_on), (''Passenger'', seat_on)]),
            (''Row2'', PDict [(''Left'', seat_on), (''Right'', seat_on)])]"

definition example_cabin :: pyval where
  "example_cabin =
     PDict [(''Seat'', example_seats),
            (''HVAC'',
              PDict [(''Row1'', PDict [(''Driver'',
                PDict [(''Temperature'', PDict [(''Value'', PStr ''OFF'')])])])]),
            (''Door'',
              PDict [(''Row1'', PDict [(''Driver'', PDict [(''Open'', PBool False)]),
                                       (''Passenger'', PDict [(''Open'', PBool False)])]),
                     (''Row2'', PDict [(''Left'', PDict [(''Open'', PBool False)]),
                                       (''Right'', PDict [(''Open'', PBool True)])])])]"

definition example_body :: pyval where
  "example_body =
     PDict [(''Windshield'',
              PDict [(''Front'', PDict [(''Defog'', PDict [(''State'', PInt 1)])]),
                     (''Rear'', PDict [(''Defog'', PDict [(''State'', PInt 3)])])])]"

definition example_green :: pyval where
  "example_green =
     PDict [(''ChargingInformation'',
              PDict [(''ElectricCurrentLevel'', PDict [(''State'', PInt 1)]),
                     (''ConnectorFastening'', PDict [(''State'', PInt 0)])]),
            (''ChargingDoor'', PDict [(''State'', PInt 2)])]"

definition example_drivetrain :: pyval where
  "example_drivetrain =
     PDict [(''FuelSystem'',
              PDict [(''DTE'', PDict [(''Total'', PInt 300), (''Unit'', PInt 1)])])]"

definition example_location :: pyval where
  "example_location =
     PDict [(''GeoCoord'', PDict [(''Latitude'', PFloat 52.5), (''Longitude'', PFloat 13.4)])]"

text \<open>
  A document that the pass translates to the end. It has no \<open>Date\<close>, no battery level, no
  steering-wheel heater state and no \<open>Location.TimeStamp\<close>.
\<close>

definition example_state :: pyval where
  "example_state =
     PDict [(''Cabin'', example_cabin), (''Body'', example_body), (''Green'', example_green),
            (''Drivetrain'', example_drivetrain), (''Location'', example_location)]"

text \<open>The same document without \<open>Drivetrain.FuelSystem.DTE.Total\<close>.\<close>

definition state_without_total :: pyval where
  "state_without_total =
     PDict [(''Cabin'', example_cabin), (''Body'', example_body), (''Green'', example_green),
            (''Drivetrain'', PDict [(''FuelSystem'', PDict [(''DTE'', PDict [(''Unit'', PInt 1)])])]),
            (''Location'', example_location)]"

text \<open>The same document with a fix on the equator: the latitude is present and is 0.\<close>

definition state_on_equator :: pyval where
  "state_on_equator =
     PDict [(''Cabin'', example_cabin), (''Body'', example_body), (''Green'', example_green),
            (''Drivetrain'', example_drivetrain),
            (''Location'',
              PDict [(''GeoCoord'', PDict [(''Latitude'', PInt 0), (''Longitude'', PFloat 13.4)])])]"

text \<open>
  A sparse document: the seat states and the driving range only. The pass translates it to the
  end; the toggle states, the cabin temperature and the location are absent from it.
\<close>

definition sparse_state :: pyval where
  "sparse_state = PDict [(''Cabin'', PDict [(''Seat'', example_seats)]),
                         (''Drivetrain'', example_drivetrain)]"

text \<open>
  An environment whose seat table also has an entry for \<open>None\<close>, as the dictionary
  \<open>{None: None, 0: "Off", 1: "On"}\<close> has, and a document without any seat path.
\<close>

definition env_with_none_seat :: env where
  "env_with_none_seat =
     example_env\<lparr>SEAT_STATUS :=
       [PNone \<mapsto> PNone, PInt 0 \<mapsto> PStr ''Off'', PInt 1 \<mapsto> PStr ''On'']\<rparr>"

definition state_without_seats :: pyval where
  "state_without_seats = PDict [(''Drivetrain'', example_drivetrain)]"

text \<open>A snapshot that earlier passes have filled.\<close>

definition example_vehicle :: vehicle where
  "example_vehicle =
     Vehicle_init\<lparr>car_battery_percentage := PInt 80,
                  u_air_temperature := PFloat 21.5,
                  u_air_temperature_value := PFloat 21.5,
                  u_air_temperature_unit := PStr ''C'',
                  defrost_is_on := PBool False,
                  steering_wheel_heater_is_on := PBool True,
                  back_window_heater_is_on := PBool True,
                  ev_charge_port_door_is_open := PBool True,
                  ev_battery_is_plugged_in := PInt 1,
                  engine_type := PObj ''EV''\<rparr>"

section \<open>Running a block of statements\<close>

lemma exec_Done_fold: "exec cs s = Done s' \<Longrightarrow> s' = fold run1 cs s"
proof (induction cs arbitrary: s)
  case Nil
  then show ?case by simp
next
  case (Cons c cs)
  then show ?case by (cases "c s") (auto simp: run1_def)
qed

lemma exec_all_Done:
  "list_all (\<lambda>c. \<forall>t. is_Done (c t)) cs \<Longrightarrow> exec cs s = Done (fold run1 cs s)"
proof (induction cs arbitrary: s)
  case Nil
  then show ?case by simp
next
  case (Cons c cs)
  then have "is_Done (c s)" by simp
  then obtain t where t: "c s = Done t" by (cases "c s") auto
  with Cons show ?case by (simp add: run1_def)
qed

lemma exec_Done_each:
  "exec cs s = Done s' \<Longrightarrow> list_all (\<lambda>c. \<exists>t. is_Done (c t)) cs"
proof (induction cs arbitrary: s)
  case Nil
  then show ?case by simp
next
  case (Cons a cs)
  show ?case
  proof (cases "a s")
    case (Raised e t)
    with Cons.prems show ?thesis by simp
  next
    case (Done t)
    with Cons.prems have "exec cs t = Done s'" by simp
    then have "list_all (\<lambda>c. \<exists>t. is_Done (c t)) cs" by (rule Cons.IH)
    moreover from Done have "\<exists>t. is_Done (a t)" by (intro exI [of _ s]) simp
    ultimately show ?thesis by simp
  qed
qed

text \<open>An invariant of every statement holds wherever the block stops.\<close>

lemma final_exec_invariant:
  "P s \<Longrightarrow> list_all (\<lambda>c. \<forall>t. P t \<longrightarrow> P (run1 c t)) cs \<Longrightarrow> P (final (exec cs s))"
proof (induction cs arbitrary: s)
  case Nil
  then show ?case by simp
next
  case (Cons c cs)
  from Cons.prems have step: "P (run1 c s)" by simp
  show ?case
  proof (cases "c s")
    case (Raised e t)
    with step show ?thesis by (simp add: run1_def)
  next
    case (Done t)
    with step have "P t" by (simp add: run1_def)
    moreover from Cons.prems have "list_all (\<lambda>c. \<forall>t. P t \<longrightarrow> P (run1 c t)) cs" by simp
    ultimately have "P (final (exec cs t))" by (rule Cons.IH)
    with Done show ?thesis by simp
  qed
qed


lemma list_all_drop: "list_all P xs \<Longrightarrow> list_all P (drop n xs)"
  by (auto simp: list_all_iff dest: in_set_dropD)

lemma final_exec_keeps: "list_all (keeps f) cs \<Longrightarrow> f (final (exec cs s)) = f s"
proof -
  assume "list_all (keeps f) cs"
  then have "list_all (\<lambda>c. \<forall>t. f t = f s \<longrightarrow> f (run1 c t) = f s) cs"
    by (simp add: list_all_iff keeps_def)
  from final_exec_invariant [where P = "\<lambda>t. f t = f s", OF refl this] show ?thesis .
qed


subsection \<open>What each kind of statement leaves\<close>

lemma run1_setattr: "run1 (setattr u v) t = u (\<lambda>_. v) t"
  by (simp add: run1_def setattr_def)

lemma run1_skip: "run1 skip t = t"
  by (simp add: run1_def skip_def)

lemma run1_evaluate: "\<not> isl rhs \<Longrightarrow> run1 (evaluate rhs k) t = run1 (k (projr rhs)) t"
  by (cases rhs) (auto simp: run1_def evaluate_def)

lemma run1_evaluate_subscript:
  "k \<in> dom T \<Longrightarrow> run1 (evaluate (subscript T k) f) t = run1 (f (the (T k))) t"
  by (auto simp: run1_def evaluate_def subscript_def split: option.splits)

lemma run1_setattr_self: "run1 (\<lambda>self. setattr u (g self) self) t = u (\<lambda>_. g t) t"
  by (simp add: run1_def setattr_def)

lemma run1_defrost:
  "run1 (if A then setattr defrost_is_on_update a
         else if B then setattr defrost_is_on_update b else skip) t =
     t\<lparr>defrost_is_on := (if A then a else if B then b else defrost_is_on t)\<rparr>"
  by (simp add: run1_def setattr_def skip_def)

lemma run1_steering:
  "run1 (if A then setattr steering_wheel_heater_is_on_update a
         else if B then setattr steering_wheel_heater_is_on_update b else skip) t =
     t\<lparr>steering_wheel_heater_is_on :=
         (if A then a else if B then b else steering_wheel_heater_is_on t)\<rparr>"
  by (simp add: run1_def setattr_def skip_def)

lemma run1_back_window:
  "run1 (if A then setattr back_window_heater_is_on_update a
         else if B then setattr back_window_heater_is_on_update b else skip) t =
     t\<lparr>back_window_heater_is_on :=
         (if A then a else if B then b else back_window_heater_is_on t)\<rparr>"
  by (simp add: run1_def setattr_def skip_def)

lemma run1_charge_port:
  "run1 (if A then setattr ev_charge_port_door_is_open_update a
         else if B then setattr ev_charge_port_door_is_open_update b else skip) t =
     t\<lparr>ev_charge_port_door_is_open :=
         (if A then a else if B then b else ev_charge_port_door_is_open t)\<rparr>"
  by (simp add: run1_def setattr_def skip_def)

lemma run1_timestamp:
  "(c \<longrightarrow> \<not> isl rhs) \<Longrightarrow>
   run1 (if c then evaluate rhs (setattr last_updated_at_update)
         else setattr last_updated_at_update v) t
   = t\<lparr>last_updated_at := (if c then projr rhs else v)\<rparr>"
  by (cases rhs) (auto simp: run1_def evaluate_def setattr_def)

lemma run1_odometer_setter:
  "\<not> isl (get_float env (fst value)) \<Longrightarrow>
   run1 (odometer_setter env value) t =
     t\<lparr>u_odometer_value := projr (get_float env (fst value)),
        u_odometer_unit := snd value,
        u_odometer := projr (get_float env (fst value))\<rparr>"
  by (cases "get_float env (fst value)") (auto simp: run1_def odometer_setter_def)

lemma run1_air_temperature:
  "(c \<longrightarrow> k \<in> dom T) \<Longrightarrow>
   run1 (if c then evaluate (subscript T k) (\<lambda>unit. air_temperature_setter (v, unit))
         else skip) t
   = t\<lparr>u_air_temperature_value := (if c then v else u_air_temperature_value t),
        u_air_temperature_unit := (if c then the (T k) else u_air_temperature_unit t),
        u_air_temperature := (if c then v else u_air_temperature t)\<rparr>"
  by (auto simp: run1_def evaluate_def subscript_def air_temperature_setter_def skip_def
      split: option.splits)

lemma run1_ev_driving_range:
  "run1 (\<lambda>self. if c self then ev_driving_range_setter (value self) self else skip self) t
   = t\<lparr>u_ev_driving_range_value := (if c t then fst (value t) else u_ev_driving_range_value t),
        u_ev_driving_range_unit := (if c t then snd (value t) else u_ev_driving_range_unit t),
        u_ev_driving_range := (if c t then fst (value t) else u_ev_driving_range t)\<rparr>"
  by (auto simp: run1_def ev_driving_range_setter_def skip_def)

lemma run1_total_driving_range_setter:
  "run1 (total_driving_range_setter value) t =
     t\<lparr>u_total_driving_range_value := fst value, u_total_driving_range_unit := snd value,
        u_total_driving_range := fst value\<rparr>"
  by (simp add: run1_def total_driving_range_setter_def)

lemma run1_current_charge_duration_setter:
  "run1 (ev_estimated_current_charge_duration_setter value) t =
     t\<lparr>u_ev_estimated_current_charge_duration_value := fst value,
        u_ev_estimated_current_charge_duration_unit := snd value,
        u_ev_estimated_current_charge_duration := fst value\<rparr>"
  by (simp add: run1_def ev_estimated_current_charge_duration_setter_def)

lemma run1_fast_charge_duration_setter:
  "run1 (ev_estimated_fast_charge_duration_setter value) t =
     t\<lparr>u_ev_estimated_fast_charge_duration_value := fst value,
        u_ev_estimated_fast_charge_duration_unit := snd value,
        u_ev_estimated_fast_charge_duration := fst value\<rparr>"
  by (simp add: run1_def ev_estimated_fast_charge_duration_setter_def)

lemma run1_portable_charge_duration_setter:
  "run1 (ev_estimated_portable_charge_duration_setter value) t =
     t\<lparr>u_ev_estimated_portable_charge_duration_value := fst value,
        u_ev_estimated_portable_charge_duration_unit := snd value,
        u_ev_estimated_portable_charge_duration := fst value\<rparr>"
  by (simp add: run1_def ev_estimated_portable_charge_duration_setter_def)

lemma run1_station_charge_duration_setter:
  "run1 (ev_estimated_station_charge_duration_setter value) t =
     t\<lparr>u_ev_estimated_station_charge_duration_value := fst value,
        u_ev_estimated_station_charge_duration_unit := snd value,
        u_ev_estimated_station_charge_duration := fst value\<rparr>"
  by (simp add: run1_def ev_estimated_station_charge_duration_setter_def)

lemma run1_target_range_AC_setter:
  "run1 (ev_target_range_charge_AC_setter value) t =
     t\<lparr>u_ev_target_range_charge_AC_value := fst value,
        u_ev_target_range_charge_AC_unit := snd value,
        u_ev_target_range_charge_AC := fst value\<rparr>"
  by (simp add: run1_def ev_target_range_charge_AC_setter_def)

lemma run1_target_range_DC_setter:
  "run1 (ev_target_range_charge_DC_setter value) t =
     t\<lparr>u_ev_target_range_charge_DC_value := fst value,
        u_ev_target_range_charge_DC_unit := snd value,
        u_ev_target_range_charge_DC := fst value\<rparr>"
  by (simp add: run1_def ev_target_range_charge_DC_setter_def)

lemma location_time_stmt:
  "evaluate (py_int (str_to_int env) (get_child_value timestamp ''Year'')) (\<lambda>year.
   evaluate (py_int (str_to_int env) (get_child_value timestamp ''Mon'')) (\<lambda>month.
   evaluate (py_int (str_to_int env) (get_child_value timestamp ''Day'')) (\<lambda>day.
   evaluate (py_int (str_to_int env) (get_child_value timestamp ''Hour'')) (\<lambda>hour.
   evaluate (py_int (str_to_int env) (get_child_value timestamp ''Min'')) (\<lambda>minute.
   evaluate (py_int (str_to_int env) (get_child_value timestamp ''Sec'')) (\<lambda>second.
   evaluate (datetime year month day hour minute second tz) k))))))
   = evaluate (location_time env tz timestamp) k"
  by (rule ext) (simp add: evaluate_def location_time_def split: sum.splits)

lemma run1_location:
  "(c \<and> d \<longrightarrow> \<not> isl rhs) \<Longrightarrow>
   run1 (if c then (if d then evaluate rhs (\<lambda>ts. location_setter (la, lo, ts))
                    else location_setter (la, lo, ts0))
         else skip) t
   = t\<lparr>u_location_latitude := (if c then la else u_location_latitude t),
        u_location_longitude := (if c then lo else u_location_longitude t),
        u_location_last_set_time :=
          (if c then (if d then projr rhs else ts0) else u_location_last_set_time t)\<rparr>"
  by (cases rhs) (auto simp: run1_def evaluate_def location_setter_def skip_def)

lemmas run1_simps = run1_setattr run1_skip run1_defrost run1_steering run1_back_window
  run1_charge_port run1_timestamp run1_odometer_setter run1_air_temperature
  run1_ev_driving_range run1_total_driving_range_setter run1_current_charge_duration_setter
  run1_fast_charge_duration_setter run1_portable_charge_duration_setter
  run1_station_charge_duration_setter run1_target_range_AC_setter run1_target_range_DC_setter
  location_time_stmt run1_location run1_evaluate_subscript run1_evaluate run1_setattr_self

text \<open>The same without knowing whether the right-hand side raises.\<close>

lemma run1_evaluate_gen:
  "run1 (evaluate rhs k) t = (case rhs of Inl e \<Rightarrow> t | Inr v \<Rightarrow> run1 (k v) t)"
  by (cases rhs) (simp_all add: run1_def evaluate_def)

lemma run1_odometer_setter_gen:
  "run1 (odometer_setter env value) t =
     (case get_float env (fst value) of
        Inl e \<Rightarrow> t
      | Inr fv \<Rightarrow> t\<lparr>u_odometer_value := fv, u_odometer_unit := snd value, u_odometer := fv\<rparr>)"
  by (cases "get_float env (fst value)") (simp_all add: run1_def odometer_setter_def)

lemma run1_if: "run1 (if c then a else b) t = (if c then run1 a t else run1 b t)"
  by simp

lemma run1_location_setter:
  "run1 (location_setter value) t =
     t\<lparr>u_location_latitude := fst value, u_location_longitude := fst (snd value),
        u_location_last_set_time := snd (snd value)\<rparr>"
  by (simp add: run1_def location_setter_def)

lemma run1_air_temperature_setter:
  "run1 (air_temperature_setter value) t =
     t\<lparr>u_air_temperature_value := fst value, u_air_temperature_unit := snd value,
        u_air_temperature := fst value\<rparr>"
  by (simp add: run1_def air_temperature_setter_def)

lemmas run1_gen = run1_setattr run1_skip run1_evaluate_gen run1_odometer_setter_gen run1_if
  run1_setattr_self run1_ev_driving_range run1_total_driving_range_setter
  run1_current_charge_duration_setter run1_fast_charge_duration_setter
  run1_portable_charge_duration_setter run1_station_charge_duration_setter
  run1_target_range_AC_setter run1_target_range_DC_setter run1_location_setter
  run1_air_temperature_setter

lemmas fields_defs = odometer_fields_def total_driving_range_fields_def
  air_temperature_fields_def ev_driving_range_fields_def
  ev_estimated_current_charge_duration_fields_def ev_estimated_fast_charge_duration_fields_def
  ev_estimated_portable_charge_duration_fields_def
  ev_estimated_station_charge_duration_fields_def ev_target_range_charge_AC_fields_def
  ev_target_range_charge_DC_fields_def fuel_driving_range_fields_def
  next_service_distance_fields_def last_service_distance_fields_def location_fields_def

subsection \<open>Which statements raise\<close>

lemma is_Done_setattr: "is_Done (setattr u v t)"
  by (simp add: setattr_def)

lemma is_Done_skip: "is_Done (skip t)"
  by (simp add: skip_def)

lemma is_Done_evaluate:
  "is_Done (evaluate rhs k t) \<longleftrightarrow> \<not> isl rhs \<and> is_Done (k (projr rhs) t)"
  by (cases rhs) (auto simp: evaluate_def)

lemma isl_subscript: "isl (subscript T k) \<longleftrightarrow> k \<notin> dom T"
  by (auto simp: subscript_def split: option.splits)

lemma is_Done_odometer_setter:
  "is_Done (odometer_setter env value t) \<longleftrightarrow> \<not> isl (get_float env (fst value))"
  by (cases "get_float env (fst value)") (auto simp: odometer_setter_def)

lemmas setter_defs = total_driving_range_setter_def air_temperature_setter_def
  ev_driving_range_setter_def ev_estimated_current_charge_duration_setter_def
  ev_estimated_fast_charge_duration_setter_def ev_estimated_portable_charge_duration_setter_def
  ev_estimated_station_charge_duration_setter_def ev_target_range_charge_AC_setter_def
  ev_target_range_charge_DC_setter_def location_setter_def

lemmas is_Done_simps = is_Done_setattr is_Done_skip is_Done_evaluate isl_subscript
  is_Done_odometer_setter location_time_stmt if_distribR if_distrib [of is_Done]

lemmas ccs2_unfold = ccs2_statements_def Let_def total_driving_range_def
  total_driving_range_unit_def

section \<open>The completed pass in closed form\<close>

text \<open>
  A congruence rule that keeps the simplifier out of the path literals: a reading is rewritten
  as a whole or not at all.
\<close>

lemma get_child_value_cong: "get_child_value state path = get_child_value state path"
  by (rule refl)

lemma fold_run1_ccs2:
  "ccs2_completes env tz state \<Longrightarrow>
     fold run1 (ccs2_statements env now tz state) self = ccs2_writes env now tz state self"
  by (simp add: ccs2_completes_def ccs2_writes_def ccs2_unfold run1_simps
      split del: if_split cong: if_cong get_child_value_cong)

lemma ccs2_completes_all_Done:
  assumes "ccs2_completes env tz state"
  shows "list_all (\<lambda>c. \<forall>t. is_Done (c t)) (ccs2_statements env now tz state)"
  using assms
  by (simp add: ccs2_completes_def ccs2_unfold is_Done_simps setter_defs
      split del: if_split cong: if_cong get_child_value_cong)

lemma ccs2_Done_completes:
  assumes "exec (ccs2_statements env now tz state) self = Done s'"
  shows "ccs2_completes env tz state"
  using exec_Done_each [OF assms]
  by (simp add: ccs2_completes_def ccs2_unfold is_Done_simps setter_defs
      cong: if_cong get_child_value_cong)

text \<open>
  The pass completes exactly when \<open>ccs2_completes\<close> holds, and then leaves \<open>ccs2_writes\<close>.
\<close>

lemma update_ccs2_Done_iff:
  "update_ccs2 env now tz state self = Done s' \<longleftrightarrow>
     ccs2_completes env tz state \<and> s' = ccs2_writes env now tz state self"
proof
  assume d: "update_ccs2 env now tz state self = Done s'"
  then have run: "exec (ccs2_statements env now tz state) self = Done s'"
    by (simp add: update_ccs2_def)
  then have c: "ccs2_completes env tz state" by (rule ccs2_Done_completes)
  from run have "s' = fold run1 (ccs2_statements env now tz state) self"
    by (rule exec_Done_fold)
  with c show "ccs2_completes env tz state \<and> s' = ccs2_writes env now tz state self"
    by (simp add: fold_run1_ccs2)
next
  assume "ccs2_completes env tz state \<and> s' = ccs2_writes env now tz state self"
  then have c: "ccs2_completes env tz state"
    and s': "s' = ccs2_writes env now tz state self" by simp_all
  from c have "exec (ccs2_statements env now tz state) self
      = Done (fold run1 (ccs2_statements env now tz state) self)"
    by (intro exec_all_Done ccs2_completes_all_Done)
  with c s' show "update_ccs2 env now tz state self = Done s'"
    by (simp add: update_ccs2_def fold_run1_ccs2)
qed

lemma is_Done_update_ccs2:
  "is_Done (update_ccs2 env now tz state self) \<longleftrightarrow> ccs2_completes env tz state"
proof
  assume "is_Done (update_ccs2 env now tz state self)"
  then obtain s' where "update_ccs2 env now tz state self = Done s'"
    by (cases "update_ccs2 env now tz state self") auto
  then show "ccs2_completes env tz state" by (simp add: update_ccs2_Done_iff)
next
  assume "ccs2_completes env tz state"
  then have "update_ccs2 env now tz state self = Done (ccs2_writes env now tz state self)"
    by (simp add: update_ccs2_Done_iff)
  then show "is_Done (update_ccs2 env now tz state self)" by simp
qed

text \<open>Single fields of the snapshot a completed pass leaves.\<close>

lemma ccs2_writes_toggles:
  "defrost_is_on (ccs2_writes env now tz state self) =
     (if py_in_ints (get_child_value state ''Body.Windshield.Front.Defog.State'') [0, 2]
      then PBool False
      else if py_eq_int (get_child_value state ''Body.Windshield.Front.Defog.State'') 1
      then PBool True else defrost_is_on self)"
  "steering_wheel_heater_is_on (ccs2_writes env now tz state self) =
     (if py_in_ints (get_child_value state ''Cabin.SteeringWheel.Heat.State'') [0, 2]
      then PBool False
      else if py_eq_int (get_child_value state ''Cabin.SteeringWheel.Heat.State'') 1
      then PBool True else steering_wheel_heater_is_on self)"
  "back_window_heater_is_on (ccs2_writes env now tz state self) =
     (if py_in_ints (get_child_value state ''Body.Windshield.Rear.Defog.State'') [0, 2]
      then PBool False
      else if py_eq_int (get_child_value state ''Body.Windshield.Rear.Defog.State'') 1
      then PBool True else back_window_heater_is_on self)"
  "ev_charge_port_door_is_open (ccs2_writes env now tz state self) =
     (if py_in_ints (get_child_value state ''Green.ChargingDoor.State'') [0, 2]
      then PBool False
      else if py_eq_int (get_child_value state ''Green.ChargingDoor.State'') 1
      then PBool True else ev_charge_port_door_is_open self)"
  by (simp_all add: ccs2_writes_def split del: if_split cong: get_child_value_cong)

lemma ccs2_writes_seats:
  "front_left_seat_status (ccs2_writes env now tz state self) =
     the (SEAT_STATUS env (get_child_value state ''Cabin.Seat.Row1.Driver.Climate.State''))"
  "front_right_seat_status (ccs2_writes env now tz state self) =
     the (SEAT_STATUS env (get_child_value state ''Cabin.Seat.Row1.Passenger.Climate.State''))"
  "rear_left_seat_status (ccs2_writes env now tz state self) =
     the (SEAT_STATUS env (get_child_value state ''Cabin.Seat.Row2.Left.Climate.State''))"
  "rear_right_seat_status (ccs2_writes env now tz state self) =
     the (SEAT_STATUS env (get_child_value state ''Cabin.Seat.Row2.Right.Climate.State''))"
  by (simp_all add: ccs2_writes_def split del: if_split cong: get_child_value_cong)

lemma ccs2_writes_doors:
  "front_left_door_is_open (ccs2_writes env now tz state self) =
     get_child_value state ''Cabin.Door.Row1.Driver.Open''"
  "front_right_door_is_open (ccs2_writes env now tz state self) =
     get_child_value state ''Cabin.Door.Row1.Passenger.Open''"
  "back_left_door_is_open (ccs2_writes env now tz state self) =
     get_child_value state ''Cabin.Door.Row2.Left.Open''"
  "back_right_door_is_open (ccs2_writes env now tz state self) =
     get_child_value state ''Cabin.Door.Row2.Right.Open''"
  "is_locked (ccs2_writes env now tz state self) =
     py_not (py_or (py_or (py_or (get_child_value state ''Cabin.Door.Row1.Driver.Open'')
                                 (get_child_value state ''Cabin.Door.Row1.Passenger.Open''))
                          (get_child_value state ''Cabin.Door.Row2.Left.Open''))
                   (get_child_value state ''Cabin.Door.Row2.Right.Open''))"
  by (simp_all add: ccs2_writes_def split del: if_split cong: get_child_value_cong)

lemma ccs2_writes_plain:
  "car_battery_percentage (ccs2_writes env now tz state self) =
     get_child_value state ''Electronics.Battery.Level''"
  "ev_battery_is_plugged_in (ccs2_writes env now tz state self) =
     get_child_value state ''Green.ChargingInformation.ConnectorFastening.State''"
  "last_updated_at (ccs2_writes env now tz state self) =
     (if truthy (get_child_value state ''Date'')
      then projr (parse_datetime env (get_child_value state ''Date'') tz) else now tz)"
  by (simp_all add: ccs2_writes_def split del: if_split cong: get_child_value_cong)



lemma Done_final: "is_Done r \<Longrightarrow> r = Done (final r)"
  by (cases r) simp_all

lemma final_update_ccs2:
  "ccs2_completes env tz state \<Longrightarrow>
     final (update_ccs2 env now tz state self) = ccs2_writes env now tz state self"
proof -
  assume "ccs2_completes env tz state"
  then have "update_ccs2 env now tz state self = Done (ccs2_writes env now tz state self)"
    by (simp add: update_ccs2_Done_iff)
  then show ?thesis by simp
qed

lemma update_ccs2_Done_final:
  "ccs2_completes env tz state \<Longrightarrow>
     update_ccs2 env now tz state self = Done (final (update_ccs2 env now tz state self))"
  by (rule Done_final) (simp add: is_Done_update_ccs2)

section \<open>The examples\<close>

lemmas example_defs = get_child_value_def absent_def example_state_def example_cabin_def
  example_seats_def example_body_def example_green_def example_drivetrain_def
  example_location_def seat_on_def state_without_total_def state_on_equator_def
  sparse_state_def state_without_seats_def

lemma example_completes: "ccs2_completes example_env (TZ ''UTC'') example_state"
  by (simp add: ccs2_completes_def example_defs example_env_def py_float_def)


lemma sparse_completes: "ccs2_completes example_env (TZ ''UTC'') sparse_state"
  by (simp add: ccs2_completes_def example_defs example_env_def py_float_def)

lemma without_seats_completes:
  "ccs2_completes env_with_none_seat (TZ ''UTC'') state_without_seats"
  by (simp add: ccs2_completes_def example_defs env_with_none_seat_def example_env_def
      py_float_def)


text \<open>No statement but the guarded location block touches the location.\<close>

lemma keeps_location:
  assumes "\<not> truthy (get_child_value state ''Location.GeoCoord.Latitude'')"
  shows "list_all (keeps location_fields) (ccs2_statements env now tz state)"
  using assms unfolding ccs2_statements_def Let_def list.pred_inject keeps_def
  by (intro conjI allI) (simp_all add: run1_gen location_fields_def split: sum.splits)

section \<open>Absent paths\<close>

lemma keeps_defrost:
  assumes "absent state ''Body.Windshield.Front.Defog.State''"
  shows "list_all (keeps defrost_is_on) (ccs2_statements env now tz state)"
  using assms unfolding ccs2_statements_def Let_def list.pred_inject keeps_def absent_def
  by (intro conjI allI) (simp_all add: run1_gen py_in_ints_def split: sum.splits)

lemma keeps_steering:
  assumes "absent state ''Cabin.SteeringWheel.Heat.State''"
  shows "list_all (keeps steering_wheel_heater_is_on) (ccs2_statements env now tz state)"
  using assms unfolding ccs2_statements_def Let_def list.pred_inject keeps_def absent_def
  by (intro conjI allI) (simp_all add: run1_gen py_in_ints_def split: sum.splits)

lemma keeps_back_window:
  assumes "absent state ''Body.Windshield.Rear.Defog.State''"
  shows "list_all (keeps back_window_heater_is_on) (ccs2_statements env now tz state)"
  using assms unfolding ccs2_statements_def Let_def list.pred_inject keeps_def absent_def
  by (intro conjI allI) (simp_all add: run1_gen py_in_ints_def split: sum.splits)

lemma keeps_charge_port:
  assumes "absent state ''Green.ChargingDoor.State''"
  shows "list_all (keeps ev_charge_port_door_is_open) (ccs2_statements env now tz state)"
  using assms unfolding ccs2_statements_def Let_def list.pred_inject keeps_def absent_def
  by (intro conjI allI) (simp_all add: run1_gen py_in_ints_def split: sum.splits)

text \<open>
  Claim C1, as the specification states it: whenever the source path of a derived field is absent
  from the document, the pass leaves the field at the value it had. The code assigns most fields
  unconditionally, so for those an absent path stores the absence marker: here the battery level
  of the snapshot, 80 before the pass, is \<open>None\<close> after a pass that ran to the end over a
  document without \<open>Electronics.Battery.Level\<close>.
\<close>

theorem absent_path_overwrites_counterexample:
  "absent example_state ''Electronics.Battery.Level''
   \<and> is_Done (update_ccs2 example_env example_now (TZ ''UTC'') example_state example_vehicle)
   \<and> car_battery_percentage example_vehicle = PInt 80
   \<and> car_battery_percentage
        (final (update_ccs2 example_env example_now (TZ ''UTC'') example_state example_vehicle))
       = PNone"
proof -
  have a: "absent example_state ''Electronics.Battery.Level''"
    by (simp add: example_defs)
  have v: "car_battery_percentage example_vehicle = PInt 80"
    by (simp add: example_vehicle_def)
  have d: "is_Done (update_ccs2 example_env example_now (TZ ''UTC'') example_state example_vehicle)"
    by (simp add: is_Done_update_ccs2 example_completes)
  have "car_battery_percentage
          (final (update_ccs2 example_env example_now (TZ ''UTC'') example_state example_vehicle))
        = get_child_value example_state ''Electronics.Battery.Level''"
    by (simp add: final_update_ccs2 [OF example_completes] ccs2_writes_plain)
  with a v d show ?thesis by (simp add: absent_def)
qed

text \<open>
  Claim C1, amended: the fields the pass writes under a guard keep their value when their source
  path is absent. These are the four tri-state toggles (front defrost, steering-wheel heater,
  back-window heater, charge-port door) and the location triple, guarded by the latitude. This
  holds for every snapshot, timezone and document and wherever the pass stops.
\<close>

theorem guarded_fields_kept_when_absent:
  "(absent state ''Body.Windshield.Front.Defog.State'' \<longrightarrow>
      defrost_is_on (final (update_ccs2 env now tz state self)) = defrost_is_on self) \<and>
   (absent state ''Cabin.SteeringWheel.Heat.State'' \<longrightarrow>
      steering_wheel_heater_is_on (final (update_ccs2 env now tz state self))
        = steering_wheel_heater_is_on self) \<and>
   (absent state ''Body.Windshield.Rear.Defog.State'' \<longrightarrow>
      back_window_heater_is_on (final (update_ccs2 env now tz state self))
        = back_window_heater_is_on self) \<and>
   (absent state ''Green.ChargingDoor.State'' \<longrightarrow>
      ev_charge_port_door_is_open (final (update_ccs2 env now tz state self))
        = ev_charge_port_door_is_open self) \<and>
   (absent state ''Location.GeoCoord.Latitude'' \<longrightarrow>
      location_fields (final (update_ccs2 env now tz state self)) = location_fields self)"
proof -
  have "\<not> truthy (get_child_value state ''Location.GeoCoord.Latitude'')"
    if "absent state ''Location.GeoCoord.Latitude''"
    using that by (simp add: absent_def)
  then show ?thesis
    unfolding update_ccs2_def
    by (intro conjI impI final_exec_keeps keeps_defrost keeps_steering keeps_back_window
        keeps_charge_port keeps_location)
qed

theorem guarded_fields_kept_when_absent_witness:
  "absent sparse_state ''Body.Windshield.Front.Defog.State''
   \<and> absent sparse_state ''Cabin.SteeringWheel.Heat.State''
   \<and> absent sparse_state ''Body.Windshield.Rear.Defog.State''
   \<and> absent sparse_state ''Green.ChargingDoor.State''
   \<and> absent sparse_state ''Location.GeoCoord.Latitude''
   \<and> is_Done (update_ccs2 example_env example_now (TZ ''UTC'') sparse_state example_vehicle)
   \<and> defrost_is_on
        (final (update_ccs2 example_env example_now (TZ ''UTC'') sparse_state example_vehicle))
       = PBool False
   \<and> steering_wheel_heater_is_on
        (final (update_ccs2 example_env example_now (TZ ''UTC'') sparse_state example_vehicle))
       = PBool True
   \<and> back_window_heater_is_on
        (final (update_ccs2 example_env example_now (TZ ''UTC'') sparse_state example_vehicle))
       = PBool True
   \<and> ev_charge_port_door_is_open
        (final (update_ccs2 example_env example_now (TZ ''UTC'') sparse_state example_vehicle))
       = PBool True
   \<and> location_fields
        (final (update_ccs2 example_env example_now (TZ ''UTC'') sparse_state example_vehicle))
       = (PNone, PNone, PNone)"
proof -
  have a: "absent sparse_state ''Body.Windshield.Front.Defog.State''"
    "absent sparse_state ''Cabin.SteeringWheel.Heat.State''"
    "absent sparse_state ''Body.Windshield.Rear.Defog.State''"
    "absent sparse_state ''Green.ChargingDoor.State''"
    "absent sparse_state ''Location.GeoCoord.Latitude''"
    by (simp_all add: example_defs)
  have v: "defrost_is_on example_vehicle = PBool False"
    "steering_wheel_heater_is_on example_vehicle = PBool True"
    "back_window_heater_is_on example_vehicle = PBool True"
    "ev_charge_port_door_is_open example_vehicle = PBool True"
    "location_fields example_vehicle = (PNone, PNone, PNone)"
    by (simp_all add: example_vehicle_def Vehicle_init_def location_fields_def)
  have d: "is_Done (update_ccs2 example_env example_now (TZ ''UTC'') sparse_state example_vehicle)"
    by (simp add: is_Done_update_ccs2 sparse_completes)
  from guarded_fields_kept_when_absent
         [of sparse_state example_env example_now "TZ ''UTC''" example_vehicle] a v d
  show ?thesis by simp
qed

section \<open>Raising passes\<close>

text \<open>
  Claim C3 says that no absent path makes the pass raise, in particular not the absence of
  \<open>Drivetrain.FuelSystem.DTE.Total\<close>. The code hands that reading to \<open>float\<close> unguarded, and
  \<open>float(None)\<close> raises: a pass over a document without the path never runs to the end.
\<close>

theorem absent_total_range_raises:
  assumes "absent state ''Drivetrain.FuelSystem.DTE.Total''"
  shows "is_Raised (update_ccs2 env now tz state self)"
proof -
  from assms have "isl (py_float (str_to_float env)
      (get_child_value state ''Drivetrain.FuelSystem.DTE.Total''))"
    by (simp add: absent_def py_float_def)
  then have "\<not> ccs2_completes env tz state" by (simp add: ccs2_completes_def)
  then have "\<not> is_Done (update_ccs2 env now tz state self)" by (simp add: is_Done_update_ccs2)
  then show ?thesis by (cases "update_ccs2 env now tz state self") simp_all
qed

lemma raised_error_exec_Cons:
  "raised_error (exec (c # cs) s) =
     (case raised_error (c s) of Some e \<Rightarrow> Some e | None \<Rightarrow> raised_error (exec cs (run1 c s)))"
  by (cases "c s") (simp_all add: run1_def)

lemma raised_error_setattr: "raised_error (setattr u v t) = None"
  by (simp add: setattr_def)

lemma raised_error_skip: "raised_error (skip t) = None"
  by (simp add: skip_def)

lemma raised_error_evaluate:
  "raised_error (evaluate rhs k t) =
     (case rhs of Inl e \<Rightarrow> Some e | Inr v \<Rightarrow> raised_error (k v t))"
  by (cases rhs) (simp_all add: evaluate_def)

lemma raised_error_odometer_setter:
  "raised_error (odometer_setter env value t) =
     (case get_float env (fst value) of Inl e \<Rightarrow> Some e | Inr v \<Rightarrow> None)"
  by (cases "get_float env (fst value)") (simp_all add: odometer_setter_def)

lemmas raised_error_simps = raised_error_exec_Cons raised_error_setattr raised_error_skip
  raised_error_evaluate raised_error_odometer_setter if_distribR if_distrib [of raised_error]

theorem absent_total_range_raises_witness:
  "absent state_without_total ''Drivetrain.FuelSystem.DTE.Total''
   \<and> is_Raised (update_ccs2 example_env example_now (TZ ''UTC'') state_without_total
                  example_vehicle)
   \<and> raised_error (update_ccs2 example_env example_now (TZ ''UTC'') state_without_total
                      example_vehicle) = Some TypeError"
proof -
  have a: "absent state_without_total ''Drivetrain.FuelSystem.DTE.Total''"
    by (simp add: example_defs)
  have g: "truthy (get_child_value state_without_total ''Date'') = False"
    "subscript (DISTANCE_UNITS example_env) (PInt 1) = Inr (PStr ''km'')"
    "get_float example_env (get_child_value state_without_total ''Drivetrain.Odometer'')
       = Inr PNone"
    "get_child_value state_without_total ''Cabin.HVAC.Row1.Driver.Temperature.Value''
       = PStr ''OFF''"
    "subscript (SEAT_STATUS example_env)
       (get_child_value state_without_total ''Cabin.Seat.Row1.Driver.Climate.State'')
       = Inr (PStr ''On'')"
    "subscript (SEAT_STATUS example_env)
       (get_child_value state_without_total ''Cabin.Seat.Row1.Passenger.Climate.State'')
       = Inr (PStr ''On'')"
    "subscript (SEAT_STATUS example_env)
       (get_child_value state_without_total ''Cabin.Seat.Row2.Left.Climate.State'')
       = Inr (PStr ''On'')"
    "subscript (SEAT_STATUS example_env)
       (get_child_value state_without_total ''Cabin.Seat.Row2.Right.Climate.State'')
       = Inr (PStr ''On'')"
    "py_float (str_to_float example_env)
       (get_child_value state_without_total ''Drivetrain.FuelSystem.DTE.Total'')
       = Inl TypeError"
    by (simp_all add: example_defs example_env_def subscript_def py_float_def)
  have "raised_error (update_ccs2 example_env example_now (TZ ''UTC'') state_without_total
                        example_vehicle) = Some TypeError"
    unfolding update_ccs2_def ccs2_statements_def Let_def
    by (simp add: raised_error_simps g del: exec.simps split del: if_split cong: if_cong)
  with a absent_total_range_raises [OF a, of example_env example_now "TZ ''UTC''" example_vehicle]
  show ?thesis by simp
qed

section \<open>Decoding of state codes\<close>

text \<open>
  Claim C4: each tri-state toggle (front defrost, steering-wheel heater, back-window heater,
  charge-port door) is false after a pass whose document gives code 0 or 2, true for code 1, and
  keeps the value it had for any other integer code and for an absent path. The comparison is
  Python's \<open>in [0, 2]\<close> and \<open>== 1\<close>, which the last conjunct states for an arbitrary
  reading.
\<close>

theorem tri_state_toggles:
  assumes "update_ccs2 env now tz state self = Done s'"
    and "(path, before, after) \<in>
           {(''Body.Windshield.Front.Defog.State'', defrost_is_on self, defrost_is_on s'),
            (''Cabin.SteeringWheel.Heat.State'',
               steering_wheel_heater_is_on self, steering_wheel_heater_is_on s'),
            (''Body.Windshield.Rear.Defog.State'',
               back_window_heater_is_on self, back_window_heater_is_on s'),
            (''Green.ChargingDoor.State'',
               ev_charge_port_door_is_open self, ev_charge_port_door_is_open s')}"
  shows "(get_child_value state path = PInt 0 \<or> get_child_value state path = PInt 2
            \<longrightarrow> after = PBool False)
       \<and> (get_child_value state path = PInt 1 \<longrightarrow> after = PBool True)
       \<and> (\<forall>k. get_child_value state path = PInt k \<and> k \<noteq> 0 \<and> k \<noteq> 1 \<and> k \<noteq> 2
            \<longrightarrow> after = before)
       \<and> (absent state path \<longrightarrow> after = before)
       \<and> after = (if py_in_ints (get_child_value state path) [0, 2] then PBool False
                  else if py_eq_int (get_child_value state path) 1 then PBool True
                  else before)"
proof -
  from assms(1) have s': "s' = ccs2_writes env now tz state self"
    by (simp add: update_ccs2_Done_iff)
  have "after = (if py_in_ints (get_child_value state path) [0, 2] then PBool False
                 else if py_eq_int (get_child_value state path) 1 then PBool True
                 else before)"
    using assms(2) unfolding s' by (auto simp: ccs2_writes_toggles simp del: py_eq_int.simps)
  then show ?thesis by (auto simp: py_in_ints_def absent_def)
qed

theorem tri_state_toggles_witness:
  "update_ccs2 example_env example_now (TZ ''UTC'') example_state example_vehicle
     = Done (final (update_ccs2 example_env example_now (TZ ''UTC'') example_state
                      example_vehicle))
   \<and> get_child_value example_state ''Body.Windshield.Front.Defog.State'' = PInt 1
   \<and> defrost_is_on example_vehicle = PBool False
   \<and> defrost_is_on (final (update_ccs2 example_env example_now (TZ ''UTC'') example_state
                              example_vehicle)) = PBool True"
proof -
  have d: "update_ccs2 example_env example_now (TZ ''UTC'') example_state example_vehicle
     = Done (final (update_ccs2 example_env example_now (TZ ''UTC'') example_state
                      example_vehicle))"
    by (rule update_ccs2_Done_final [OF example_completes])
  have g: "get_child_value example_state ''Body.Windshield.Front.Defog.State'' = PInt 1"
    by (simp add: example_defs)
  have v: "defrost_is_on example_vehicle = PBool False"
    by (simp add: example_vehicle_def)
  from tri_state_toggles [OF d, of "''Body.Windshield.Front.Defog.State''"
        "defrost_is_on example_vehicle"
        "defrost_is_on (final (update_ccs2 example_env example_now (TZ ''UTC'') example_state
                                 example_vehicle))"] g
  have "defrost_is_on (final (update_ccs2 example_env example_now (TZ ''UTC'') example_state
                                example_vehicle)) = PBool True"
    by simp
  with d g v show ?thesis by (intro conjI)
qed

text \<open>
  Claim C5, as the specification states it: a seat-climate code outside the domain of
  \<open>SEAT_STATUS\<close>, or an absent one, makes the pass raise. The lookup is unguarded, but an
  absent path is not a case of its own: it reads as \<open>None\<close> and \<open>None\<close> is looked up like
  any other key. With a table that has an entry for \<open>None\<close>, a pass over a document without
  the seat paths runs to the end and stores that entry.
\<close>

theorem absent_seat_code_counterexample:
  "absent state_without_seats ''Cabin.Seat.Row1.Driver.Climate.State''
   \<and> SEAT_STATUS env_with_none_seat PNone = Some PNone
   \<and> is_Done (update_ccs2 env_with_none_seat example_now (TZ ''UTC'') state_without_seats
                 example_vehicle)
   \<and> front_left_seat_status
        (final (update_ccs2 env_with_none_seat example_now (TZ ''UTC'') state_without_seats
                  example_vehicle)) = PNone"
proof -
  have a: "absent state_without_seats ''Cabin.Seat.Row1.Driver.Climate.State''"
    by (simp add: example_defs)
  have t: "SEAT_STATUS env_with_none_seat PNone = Some PNone"
    by (simp add: env_with_none_seat_def)
  have d: "is_Done (update_ccs2 env_with_none_seat example_now (TZ ''UTC'')
                      state_without_seats example_vehicle)"
    by (simp add: is_Done_update_ccs2 without_seats_completes)
  have "front_left_seat_status
        (final (update_ccs2 env_with_none_seat example_now (TZ ''UTC'') state_without_seats
                  example_vehicle))
      = the (SEAT_STATUS env_with_none_seat
               (get_child_value state_without_seats ''Cabin.Seat.Row1.Driver.Climate.State''))"
    by (simp add: final_update_ccs2 [OF without_seats_completes] ccs2_writes_seats)
  with a t have s: "front_left_seat_status
        (final (update_ccs2 env_with_none_seat example_now (TZ ''UTC'') state_without_seats
                  example_vehicle)) = PNone"
    by (simp add: absent_def)
  from a t d s show ?thesis by (intro conjI)
qed

text \<open>
  Claim C5, amended: the seat-climate codes are looked up in \<open>SEAT_STATUS\<close> without a guard.
  A pass raises when the reading of a seat path is outside the domain of the table; an absent
  path reads as \<open>None\<close>, so it raises when the table has no entry for \<open>None\<close>. Conversely,
  after a completed pass each seat-status field holds the entry of the table for its reading.
\<close>

theorem seat_status_lookup:
  assumes "(path, field) \<in>
             {(''Cabin.Seat.Row1.Driver.Climate.State'', front_left_seat_status),
              (''Cabin.Seat.Row1.Passenger.Climate.State'', front_right_seat_status),
              (''Cabin.Seat.Row2.Left.Climate.State'', rear_left_seat_status),
              (''Cabin.Seat.Row2.Right.Climate.State'', rear_right_seat_status)}"
  shows "(get_child_value state path \<notin> dom (SEAT_STATUS env)
            \<longrightarrow> is_Raised (update_ccs2 env now tz state self))
       \<and> (absent state path \<and> PNone \<notin> dom (SEAT_STATUS env)
            \<longrightarrow> is_Raised (update_ccs2 env now tz state self))
       \<and> (\<forall>s'. update_ccs2 env now tz state self = Done s'
            \<longrightarrow> SEAT_STATUS env (get_child_value state path) = Some (field s'))"
proof -
  have raised: "is_Raised (update_ccs2 env now tz state self)"
    if "get_child_value state path \<notin> dom (SEAT_STATUS env)"
  proof -
    from that assms have "\<not> ccs2_completes env tz state"
      by (auto simp: ccs2_completes_def)
    then have "\<not> is_Done (update_ccs2 env now tz state self)"
      by (simp add: is_Done_update_ccs2)
    then show ?thesis by (cases "update_ccs2 env now tz state self") simp_all
  qed
  have set: "SEAT_STATUS env (get_child_value state path) = Some (field s')"
    if "update_ccs2 env now tz state self = Done s'" for s'
  proof -
    from that have c: "ccs2_completes env tz state"
      and s': "s' = ccs2_writes env now tz state self"
      by (simp_all add: update_ccs2_Done_iff)
    from c assms have "get_child_value state path \<in> dom (SEAT_STATUS env)"
      by (auto simp: ccs2_completes_def)
    moreover from assms
    have "field s' = the (SEAT_STATUS env (get_child_value state path))"
      unfolding s' by (auto simp: ccs2_writes_seats)
    ultimately show ?thesis by auto
  qed
  from raised set show ?thesis by (auto simp: absent_def)
qed

theorem seat_status_lookup_witness:
  "get_child_value example_state ''Cabin.Seat.Row1.Driver.Climate.State'' = PInt 1
   \<and> SEAT_STATUS example_env (PInt 1) = Some (PStr ''On'')
   \<and> update_ccs2 example_env example_now (TZ ''UTC'') example_state example_vehicle
       = Done (final (update_ccs2 example_env example_now (TZ ''UTC'') example_state
                        example_vehicle))
   \<and> front_left_seat_status
        (final (update_ccs2 example_env example_now (TZ ''UTC'') example_state example_vehicle))
       = PStr ''On''
   \<and> absent (PDict []) ''Cabin.Seat.Row1.Driver.Climate.State''
   \<and> PNone \<notin> dom (SEAT_STATUS example_env)
   \<and> is_Raised (update_ccs2 example_env example_now (TZ ''UTC'') (PDict []) example_vehicle)"
proof -
  have d: "update_ccs2 example_env example_now (TZ ''UTC'') example_state example_vehicle
     = Done (final (update_ccs2 example_env example_now (TZ ''UTC'') example_state
                      example_vehicle))"
    by (rule update_ccs2_Done_final [OF example_completes])
  have g: "get_child_value example_state ''Cabin.Seat.Row1.Driver.Climate.State'' = PInt 1"
    "absent (PDict []) ''Cabin.Seat.Row1.Driver.Climate.State''"
    by (simp_all add: example_defs)
  have t: "SEAT_STATUS example_env (PInt 1) = Some (PStr ''On'')"
    "PNone \<notin> dom (SEAT_STATUS example_env)"
    by (simp_all add: example_env_def)
  from seat_status_lookup [of "''Cabin.Seat.Row1.Driver.Climate.State''" front_left_seat_status
        example_state example_env example_now "TZ ''UTC''" example_vehicle] d
  have "SEAT_STATUS example_env
          (get_child_value example_state ''Cabin.Seat.Row1.Driver.Climate.State'')
        = Some (front_left_seat_status
            (final (update_ccs2 example_env example_now (TZ ''UTC'') example_state
                      example_vehicle)))"
    by blast
  with g t have s: "front_left_seat_status
        (final (update_ccs2 example_env example_now (TZ ''UTC'') example_state example_vehicle))
       = PStr ''On''"
    by simp
  from seat_status_lookup [of "''Cabin.Seat.Row1.Driver.Climate.State''" front_left_seat_status
        "PDict []" example_env example_now "TZ ''UTC''" example_vehicle] g t
  have r: "is_Raised (update_ccs2 example_env example_now (TZ ''UTC'') (PDict [])
                        example_vehicle)"
    by blast
  from g t d s r show ?thesis by (intro conjI)
qed

section \<open>Derived and overwritten fields\<close>

lemma truthy_py_or: "truthy (py_or a b) \<longleftrightarrow> truthy a \<or> truthy b"
  by (simp add: py_or_def)

text \<open>
  Claim C6: after the pass, the four door fields hold the readings of this pass, and
  \<open>is_locked\<close> is true exactly when none of them is true (truthy, for a reading that is not a
  boolean). In particular four \<open>False\<close> give \<open>True\<close>, and one \<open>True\<close> gives \<open>False\<close>.
\<close>

theorem is_locked_from_doors:
  assumes "update_ccs2 env now tz state self = Done s'"
  shows "front_left_door_is_open s' = get_child_value state ''Cabin.Door.Row1.Driver.Open''
       \<and> front_right_door_is_open s' = get_child_value state ''Cabin.Door.Row1.Passenger.Open''
       \<and> back_left_door_is_open s' = get_child_value state ''Cabin.Door.Row2.Left.Open''
       \<and> back_right_door_is_open s' = get_child_value state ''Cabin.Door.Row2.Right.Open''
       \<and> is_locked s' =
           PBool (\<not> (truthy (front_left_door_is_open s') \<or> truthy (front_right_door_is_open s')
                      \<or> truthy (back_left_door_is_open s') \<or> truthy (back_right_door_is_open s')))
       \<and> (front_left_door_is_open s' = PBool False \<and> front_right_door_is_open s' = PBool False
            \<and> back_left_door_is_open s' = PBool False \<and> back_right_door_is_open s' = PBool False
            \<longrightarrow> is_locked s' = PBool True)
       \<and> (front_left_door_is_open s' = PBool True \<or> front_right_door_is_open s' = PBool True
            \<or> back_left_door_is_open s' = PBool True \<or> back_right_door_is_open s' = PBool True
            \<longrightarrow> is_locked s' = PBool False)"
proof -
  from assms have s': "s' = ccs2_writes env now tz state self"
    by (simp add: update_ccs2_Done_iff)
  have doors: "front_left_door_is_open s' = get_child_value state ''Cabin.Door.Row1.Driver.Open''"
    "front_right_door_is_open s' = get_child_value state ''Cabin.Door.Row1.Passenger.Open''"
    "back_left_door_is_open s' = get_child_value state ''Cabin.Door.Row2.Left.Open''"
    "back_right_door_is_open s' = get_child_value state ''Cabin.Door.Row2.Right.Open''"
    unfolding s' by (simp_all add: ccs2_writes_doors)
  have "is_locked s' =
      py_not (py_or (py_or (py_or (get_child_value state ''Cabin.Door.Row1.Driver.Open'')
                                  (get_child_value state ''Cabin.Door.Row1.Passenger.Open''))
                           (get_child_value state ''Cabin.Door.Row2.Left.Open''))
                    (get_child_value state ''Cabin.Door.Row2.Right.Open''))"
    unfolding s' by (simp add: ccs2_writes_doors)
  then have locked: "is_locked s' =
      PBool (\<not> (truthy (front_left_door_is_open s') \<or> truthy (front_right_door_is_open s')
                 \<or> truthy (back_left_door_is_open s') \<or> truthy (back_right_door_is_open s')))"
    by (simp add: doors py_not_def truthy_py_or)
  from doors locked show ?thesis by auto
qed

theorem is_locked_from_doors_witness:
  "update_ccs2 example_env example_now (TZ ''UTC'') example_state example_vehicle
     = Done (final (update_ccs2 example_env example_now (TZ ''UTC'') example_state
                      example_vehicle))
   \<and> get_child_value example_state ''Cabin.Door.Row1.Driver.Open'' = PBool False
   \<and> get_child_value example_state ''Cabin.Door.Row1.Passenger.Open'' = PBool False
   \<and> get_child_value example_state ''Cabin.Door.Row2.Left.Open'' = PBool False
   \<and> get_child_value example_state ''Cabin.Door.Row2.Right.Open'' = PBool True
   \<and> is_locked (final (update_ccs2 example_env example_now (TZ ''UTC'') example_state
                          example_vehicle)) = PBool False"
proof -
  have d: "update_ccs2 example_env example_now (TZ ''UTC'') example_state example_vehicle
     = Done (final (update_ccs2 example_env example_now (TZ ''UTC'') example_state
                      example_vehicle))"
    by (rule update_ccs2_Done_final [OF example_completes])
  have g: "get_child_value example_state ''Cabin.Door.Row1.Driver.Open'' = PBool False"
    "get_child_value example_state ''Cabin.Door.Row1.Passenger.Open'' = PBool False"
    "get_child_value example_state ''Cabin.Door.Row2.Left.Open'' = PBool False"
    "get_child_value example_state ''Cabin.Door.Row2.Right.Open'' = PBool True"
    by (simp_all add: example_defs)
  from is_locked_from_doors [OF d] g
  have "is_locked (final (update_ccs2 example_env example_now (TZ ''UTC'') example_state
                            example_vehicle)) = PBool False"
    by simp
  with d g show ?thesis by (intro conjI)
qed

text \<open>
  Claim C10: after the pass \<open>ev_battery_is_plugged_in\<close> is the reading of
  \<open>Green.ChargingInformation.ConnectorFastening.State\<close>, the absence marker when that path is
  absent, whatever \<open>Green.ChargingInformation.ElectricCurrentLevel.State\<close> reads: the second
  assignment overwrites the first.
\<close>

theorem plugged_in_is_connector_fastening:
  assumes "update_ccs2 env now tz state self = Done s'"
  shows "ev_battery_is_plugged_in s'
           = get_child_value state ''Green.ChargingInformation.ConnectorFastening.State''
       \<and> (absent state ''Green.ChargingInformation.ConnectorFastening.State''
            \<longrightarrow> ev_battery_is_plugged_in s' = PNone)"
  using assms by (simp add: update_ccs2_Done_iff ccs2_writes_plain absent_def)

theorem plugged_in_is_connector_fastening_witness:
  "update_ccs2 example_env example_now (TZ ''UTC'') example_state example_vehicle
     = Done (final (update_ccs2 example_env example_now (TZ ''UTC'') example_state
                      example_vehicle))
   \<and> get_child_value example_state ''Green.ChargingInformation.ElectricCurrentLevel.State''
       = PInt 1
   \<and> get_child_value example_state ''Green.ChargingInformation.ConnectorFastening.State''
       = PInt 0
   \<and> ev_battery_is_plugged_in
        (final (update_ccs2 example_env example_now (TZ ''UTC'') example_state example_vehicle))
       = PInt 0
   \<and> update_ccs2 example_env example_now (TZ ''UTC'') sparse_state example_vehicle
       = Done (final (update_ccs2 example_env example_now (TZ ''UTC'') sparse_state
                        example_vehicle))
   \<and> absent sparse_state ''Green.ChargingInformation.ConnectorFastening.State''
   \<and> ev_battery_is_plugged_in example_vehicle = PInt 1
   \<and> ev_battery_is_plugged_in
        (final (update_ccs2 example_env example_now (TZ ''UTC'') sparse_state example_vehicle))
       = PNone"
proof -
  have d: "update_ccs2 example_env example_now (TZ ''UTC'') example_state example_vehicle
     = Done (final (update_ccs2 example_env example_now (TZ ''UTC'') example_state
                      example_vehicle))"
    "update_ccs2 example_env example_now (TZ ''UTC'') sparse_state example_vehicle
       = Done (final (update_ccs2 example_env example_now (TZ ''UTC'') sparse_state
                        example_vehicle))"
    by (rule update_ccs2_Done_final [OF example_completes],
        rule update_ccs2_Done_final [OF sparse_completes])
  have g: "get_child_value example_state
        ''Green.ChargingInformation.ElectricCurrentLevel.State'' = PInt 1"
    "get_child_value example_state ''Green.ChargingInformation.ConnectorFastening.State''
       = PInt 0"
    "absent sparse_state ''Green.ChargingInformation.ConnectorFastening.State''"
    by (simp_all add: example_defs)
  have v: "ev_battery_is_plugged_in example_vehicle = PInt 1"
    by (simp add: example_vehicle_def)
  from plugged_in_is_connector_fastening [OF d(1)] g
  have p1: "ev_battery_is_plugged_in
        (final (update_ccs2 example_env example_now (TZ ''UTC'') example_state example_vehicle))
       = PInt 0"
    by simp
  from plugged_in_is_connector_fastening [OF d(2)] g
  have p2: "ev_battery_is_plugged_in
        (final (update_ccs2 example_env example_now (TZ ''UTC'') sparse_state example_vehicle))
       = PNone"
    by (simp add: absent_def)
  from d g v p1 p2 show ?thesis by (intro conjI)
qed

section \<open>The cabin temperature\<close>




section \<open>The location\<close>





section \<open>Running the pass twice\<close>





section \<open>Composite fields\<close>




subsection \<open>Composites that one statement writes\<close>










subsection \<open>Composites that the pass does not write\<close>




subsection \<open>The electric range, which copies the total range\<close>





subsection \<open>Every composite, after every statement\<close>




end
